theory Spec2Isabelle
  imports Main
begin

section \<open>Data model (backend/index.js, the mongoose schemas)\<close>

text \<open>
  An ObjectId is a 12-byte value. The code compares and sorts ids through their string
  form, 24 hexadecimal digits, and on strings of one width that order is the order of the
  numbers; so an id is a natural number here. A date is a number of milliseconds.
\<close>

type_synonym oid = nat
type_synonym date = int
type_synonym sockid = nat

text \<open>
  A request field that holds an id is a string: \<open>Malformed\<close> is a string that does not
  cast to an ObjectId (mongoose then throws a CastError).
\<close>

datatype idarg = Malformed | Oid oid

datatype status = Sent | Delivered | Read

datatype error = MongoError nat | CastError | ValidationError | Error string

record user =
  u_id :: oid
  u_name :: string
  u_email :: string

record last_message =
  lm_text :: string
  lm_from :: "oid option"
  lm_timestamp :: date

record conversation =
  c_id :: oid
  participants :: "oid list"
  lastMessage :: last_message
  unreadCount :: "oid \<rightharpoonup> int"

record attachment =
  fileName :: "string option"
  filePath :: "string option"
  fileSize :: "int option"
  mimeType :: "string option"

record message =
  m_id :: oid
  conversationId :: oid
  m_from :: oid
  m_to :: oid
  m_text :: string
  status :: status
  seenAt :: "date option"
  messageType :: string
  fileAttachment :: "attachment option"
  createdAt :: date

record presence =
  socketId :: sockid
  p_email :: string
  p_name :: string
  connectedAt :: date

text \<open>
  The state of the server: the three collections, each in insertion order, and the
  process-wide table \<open>connectedUsers\<close>. A handler is a function from the state before
  the request to the state after it and the reply; it reads the clock once, as \<open>now\<close>.
  Requests that interleave at an \<open>await\<close> are modelled for \<open>getOrCreateConversation\<close>,
  further down.
\<close>

record state =
  users :: "user list"
  conversations :: "conversation list"
  messages :: "message list"
  connectedUsers :: "oid \<rightharpoonup> presence"

text \<open>
  A new document gets a fresh \<open>_id\<close>. The model takes the successor of the largest id
  in the store.
\<close>

definition all_ids :: "state \<Rightarrow> oid list" where
  "all_ids st = map u_id (users st) @ map c_id (conversations st) @ map m_id (messages st)"

definition new_oid :: "state \<Rightarrow> oid" where
  "new_oid st = Suc (fold max (all_ids st) 0)"

subsection \<open>Strings\<close>

text \<open>
  Strings are lists of bytes; \<open>trim\<close> and \<open>toLowerCase\<close> are modelled on ASCII.
\<close>

definition is_space :: "char \<Rightarrow> bool" where
  "is_space c = (c \<in> set [CHR 0x09, CHR 0x0A, CHR 0x0B, CHR 0x0C, CHR 0x0D, CHR 0x20])"

definition trim :: "string \<Rightarrow> string" where
  "trim s = rev (dropWhile is_space (rev (dropWhile is_space s)))"

definition lower_char :: "char \<Rightarrow> char" where
  "lower_char c = (let n = (of_char c :: nat) in if 65 \<le> n \<and> n \<le> 90 then char_of (n + 32) else c)"

definition toLowerCase :: "string \<Rightarrow> string" where
  "toLowerCase s = map lower_char s"

section \<open>Conversation helpers\<close>

text \<open>
  The indexes of the conversations collection, each with its \<open>unique\<close> option. The schema
  declares three, none of them unique, and at start-up the server drops the unique index
  \<open>participants_1\<close> if the database still has one.
\<close>

definition conversation_indexes :: "(string \<times> bool) list" where
  "conversation_indexes =
     [(''lastMessage.timestamp'', False), (''participants'', False), (''participants,isGroup'', False)]"

definition participants_unique :: bool where
  "participants_unique = ((''participants'', True) \<in> set conversation_indexes)"

text \<open>\<open>Conversation.findOne({ participants: { $all: ps, $size: ps.length } })\<close>\<close>

definition findOne_participants :: "conversation list \<Rightarrow> oid list \<Rightarrow> conversation option" where
  "findOne_participants cs ps =
     find (\<lambda>c. set ps \<subseteq> set (participants c) \<and> length (participants c) = length ps) cs"

text \<open>
  \<open>Conversation.create\<close>: the insert fails with code 11000 when a unique index is
  violated (a unique index on the array \<open>participants\<close> admits no two documents that
  share an element).
\<close>

definition Conversation_create ::
  "state \<Rightarrow> oid list \<Rightarrow> last_message \<Rightarrow> (oid \<rightharpoonup> int) \<Rightarrow> error + (state \<times> conversation)" where
  "Conversation_create st ps lm uc =
     (if participants_unique \<and> list_ex (\<lambda>c. set (participants c) \<inter> set ps \<noteq> {}) (conversations st)
      then Inl (MongoError 11000)
      else
        let c = \<lparr>c_id = new_oid st, participants = ps,
                 lastMessage = lm\<lparr>lm_text := trim (lm_text lm)\<rparr>, unreadCount = uc\<rparr>
        in Inr (st\<lparr>conversations := conversations st @ [c]\<rparr>, c))"

definition getOrCreateConversation ::
  "date \<Rightarrow> state \<Rightarrow> oid list \<Rightarrow> state \<times> (error + conversation)" where
  "getOrCreateConversation now st participantIds =
     (let sortedParticipants = sort participantIds in
      case findOne_participants (conversations st) sortedParticipants of
        Some conversation \<Rightarrow> (st, Inr conversation)
      | None \<Rightarrow>
          (case Conversation_create st sortedParticipants
                  \<lparr>lm_text = '''', lm_from = None, lm_timestamp = now\<rparr> Map.empty of
             Inr (st', conversation) \<Rightarrow> (st', Inr conversation)
           | Inl err \<Rightarrow>
               if err = MongoError 11000 then
                 (case findOne_participants (conversations st) sortedParticipants of
                    None \<Rightarrow> (st, Inl (Error ''Failed to create or find conversation''))
                  | Some conversation \<Rightarrow> (st, Inr conversation))
               else (st, Inl err)))"

text \<open>
  \<open>findByIdAndUpdate\<close> changes the first document with the given \<open>_id\<close>, and nothing
  when there is none.
\<close>

fun update_first :: "('a \<Rightarrow> bool) \<Rightarrow> ('a \<Rightarrow> 'a) \<Rightarrow> 'a list \<Rightarrow> 'a list" where
  "update_first P f [] = []"
| "update_first P f (x # xs) = (if P x then f x # xs else x # update_first P f xs)"

definition Conversation_findById :: "conversation list \<Rightarrow> oid \<Rightarrow> conversation option" where
  "Conversation_findById cs cid = find (\<lambda>c. c_id c = cid) cs"

definition updateConversationLastMessage :: "state \<Rightarrow> oid \<Rightarrow> last_message \<Rightarrow> state" where
  "updateConversationLastMessage st cid messageData =
     st\<lparr>conversations :=
          update_first (\<lambda>c. c_id c = cid)
            (\<lambda>c. c\<lparr>lastMessage := messageData\<lparr>lm_text := trim (lm_text messageData)\<rparr>\<rparr>)
            (conversations st)\<rparr>"

text \<open>\<open>$inc\<close> on a key that the map does not have yet sets it to the increment.\<close>

definition incrementUnreadCount :: "state \<Rightarrow> oid \<Rightarrow> oid \<Rightarrow> state" where
  "incrementUnreadCount st cid userId =
     st\<lparr>conversations :=
          update_first (\<lambda>c. c_id c = cid)
            (\<lambda>c. c\<lparr>unreadCount := (unreadCount c)
                       (userId \<mapsto> (case unreadCount c userId of None \<Rightarrow> 1 | Some n \<Rightarrow> n + 1))\<rparr>)
            (conversations st)\<rparr>"

definition resetUnreadCount :: "state \<Rightarrow> oid \<Rightarrow> oid \<Rightarrow> state" where
  "resetUnreadCount st cid userId =
     st\<lparr>conversations :=
          update_first (\<lambda>c. c_id c = cid)
            (\<lambda>c. c\<lparr>unreadCount := (unreadCount c)(userId \<mapsto> 0)\<rparr>)
            (conversations st)\<rparr>"

text \<open>
  How the routes read a counter: \<open>conv.unreadCount[userId] || 0\<close>, and the counter of a
  user in the conversation with a given id.
\<close>

definition unread_of :: "conversation \<Rightarrow> oid \<Rightarrow> int" where
  "unread_of conv userId = (case unreadCount conv userId of None \<Rightarrow> 0 | Some n \<Rightarrow> n)"

definition unread_count :: "state \<Rightarrow> oid \<Rightarrow> oid \<Rightarrow> int" where
  "unread_count st cid userId =
     (case Conversation_findById (conversations st) cid of
        None \<Rightarrow> 0
      | Some conv \<Rightarrow> unread_of conv userId)"

section \<open>Users, requests and replies\<close>

definition User_findById :: "user list \<Rightarrow> idarg \<Rightarrow> error + user option" where
  "User_findById us i =
     (case i of Malformed \<Rightarrow> Inl CastError | Oid n \<Rightarrow> Inr (find (\<lambda>u. u_id u = n) us))"

definition User_findOne_email :: "user list \<Rightarrow> string \<Rightarrow> user option" where
  "User_findOne_email us e = find (\<lambda>u. u_email u = e) us"

text \<open>\<open>validateUserExists\<close> catches the error of the lookup and returns null.\<close>

definition validateUserExists :: "user list \<Rightarrow> idarg \<Rightarrow> user option" where
  "validateUserExists us userId =
     (case User_findById us userId of
        Inl e \<Rightarrow> None
      | Inr None \<Rightarrow> None
      | Inr (Some u) \<Rightarrow> Some u)"

datatype http_error = HttpError nat string

text \<open>
  The middleware \<open>authWithUserValidation\<close>, for a request whose token is valid and has the
  subject \<open>sub\<close>: the user of the token must still be in the database.
\<close>

definition authWithUserValidation :: "user list \<Rightarrow> oid \<Rightarrow> http_error + user" where
  "authWithUserValidation us sub =
     (case User_findById us (Oid sub) of
        Inr (Some u) \<Rightarrow> Inr u
      | Inr None \<Rightarrow> Inl (HttpError 401 ''User not found'')
      | Inl e \<Rightarrow> Inl (HttpError 401 ''Invalid token''))"

text \<open>
  The body of a send, over HTTP or over the socket. An absent field is \<open>None\<close>;
  \<open>truthy\<close> is JavaScript's test of a string field (\<open>undefined\<close> and the empty string
  fail it), and \<open>or_else\<close> is \<open>s || d\<close>. An id field that is absent or empty is \<open>None\<close>.
\<close>

record send_req =
  toId :: "idarg option"
  toEmail :: "string option"
  r_text :: "string option"
  r_messageType :: "string option"
  r_fileAttachment :: "attachment option"

definition truthy :: "string option \<Rightarrow> bool" where
  "truthy s = (case s of None \<Rightarrow> False | Some v \<Rightarrow> v \<noteq> [])"

definition or_else :: "string option \<Rightarrow> string \<Rightarrow> string" where
  "or_else s d = (case s of None \<Rightarrow> d | Some v \<Rightarrow> if v = [] then d else v)"

datatype target = Room oid | Socket sockid

datatype event =
    MessageNew message
  | ThreadUpdate oid oid
  | MessageReadBy oid oid

type_synonym emitted = "(target \<times> event) list"

section \<open>Sending a message\<close>

text \<open>
  \<open>Message.create\<close> validates the document against the schema: the text is trimmed and
  has at most 2000 characters, and the type is one of the schema's enum.
\<close>

definition Message_create ::
  "date \<Rightarrow> state \<Rightarrow> oid \<Rightarrow> oid \<Rightarrow> oid \<Rightarrow> string \<Rightarrow> string \<Rightarrow> attachment option
     \<Rightarrow> error + (state \<times> message)" where
  "Message_create now st cid fromId toId' txt mtype att =
     (if 2000 < length (trim txt) \<or> mtype \<notin> set [''text'', ''image'', ''file'']
      then Inl ValidationError
      else
        let msg = \<lparr>m_id = new_oid st, conversationId = cid, m_from = fromId, m_to = toId',
                   m_text = trim txt, status = Sent, seenAt = None, messageType = mtype,
                   fileAttachment = att, createdAt = now\<rparr>
        in Inr (st\<lparr>messages := messages st @ [msg]\<rparr>, msg))"

text \<open>The preview of a message in the thread list; the two emoji are their UTF-8 bytes.\<close>

definition camera :: string where
  "camera = [CHR 0xF0, CHR 0x9F, CHR 0x93, CHR 0xB7]"

definition paperclip :: string where
  "paperclip = [CHR 0xF0, CHR 0x9F, CHR 0x93, CHR 0x8E]"

definition lastMessageText :: "message \<Rightarrow> string" where
  "lastMessageText msg =
     (if messageType msg = ''image'' then camera @ '' Photo''
      else if messageType msg = ''multi_image'' then camera @ '' 1 Photos''
      else if messageType msg = ''file'' then
        paperclip @ '' '' @
          or_else (case fileAttachment msg of None \<Rightarrow> None | Some a \<Rightarrow> fileName a) ''File''
      else m_text msg)"

text \<open>
  The two send handlers share, word for word, the lines from ``Get or create
  conversation'' to ``Increment unread count for receiver''.
\<close>

definition save_message ::
  "date \<Rightarrow> state \<Rightarrow> oid \<Rightarrow> oid \<Rightarrow> send_req \<Rightarrow> state \<times> (error + (message \<times> oid))" where
  "save_message now st senderId receiverId req =
     (case getOrCreateConversation now st [senderId, receiverId] of
        (st1, Inl e) \<Rightarrow> (st1, Inl e)
      | (st1, Inr conversation) \<Rightarrow>
          (case Message_create now st1 (c_id conversation) senderId receiverId
                  (if truthy (r_text req) then trim (or_else (r_text req) []) else [])
                  (or_else (r_messageType req) ''text'')
                  (r_fileAttachment req) of
             Inl e \<Rightarrow> (st1, Inl e)
           | Inr (st2, msg) \<Rightarrow>
               let st3 = updateConversationLastMessage st2 (c_id conversation)
                           \<lparr>lm_text = lastMessageText msg, lm_from = Some (m_from msg),
                             lm_timestamp = createdAt msg\<rparr>;
                   st4 = incrementUnreadCount st3 (c_id conversation) receiverId
               in (st4, Inr (msg, c_id conversation))))"

text \<open>The receiver of a send: by id when \<open>toId\<close> is given, else by email.\<close>

definition find_peer :: "user list \<Rightarrow> send_req \<Rightarrow> user option" where
  "find_peer us req =
     (case toId req of
        Some i \<Rightarrow> validateUserExists us i
      | None \<Rightarrow>
          if truthy (toEmail req) then User_findOne_email us (toLowerCase (or_else (toEmail req) []))
          else None)"

record send_resp =
  r_message :: message
  r_conversationId :: oid

text \<open>\<open>POST /api/messages\<close>\<close>

definition post_api_messages ::
  "date \<Rightarrow> state \<Rightarrow> oid \<Rightarrow> send_req \<Rightarrow> state \<times> (http_error + send_resp) \<times> emitted" where
  "post_api_messages now st sub req =
     (case authWithUserValidation (users st) sub of
        Inl e \<Rightarrow> (st, Inl e, [])
      | Inr me \<Rightarrow>
          if \<not> truthy (r_text req) \<and> r_fileAttachment req = None
          then (st, Inl (HttpError 400 ''Text or file required''), [])
          else
            (case validateUserExists (users st) (Oid sub) of
               None \<Rightarrow> (st, Inl (HttpError 401 ''Sender not found''), [])
             | Some sender \<Rightarrow>
                 (case find_peer (users st) req of
                    None \<Rightarrow> (st, Inl (HttpError 404 ''Peer not found or not registered''), [])
                  | Some peer \<Rightarrow>
                      if u_id sender = u_id peer
                      then (st, Inl (HttpError 400 ''Cannot send message to yourself''), [])
                      else
                        (case save_message now st (u_id sender) (u_id peer) req of
                           (st', Inl e) \<Rightarrow> (st', Inl (HttpError 500 ''Server error''), [])
                         | (st', Inr (msg, cid)) \<Rightarrow>
                             (st', Inr \<lparr>r_message = msg, r_conversationId = cid\<rparr>,
                              [(Room (m_from msg), MessageNew msg),
                               (Room (m_to msg), MessageNew msg),
                               (Room (m_from msg), ThreadUpdate cid (m_to msg)),
                               (Room (m_to msg), ThreadUpdate cid (m_from msg))])))))"

text \<open>
  A socket carries the user that its token named at the handshake. The reply of a
  socket handler is what it passes to the acknowledgement callback, if anything.
\<close>

record socket =
  sock_id :: sockid
  data_userId :: oid
  data_userEmail :: string
  data_userName :: string

datatype ack = AckError string | AckOk message

text \<open>\<open>socket.on('message:send')\<close>\<close>

definition socket_message_send ::
  "date \<Rightarrow> state \<Rightarrow> socket \<Rightarrow> send_req \<Rightarrow> state \<times> ack option \<times> emitted" where
  "socket_message_send now st sock req =
     (if \<not> truthy (r_text req) \<and> r_fileAttachment req = None
      then (st, Some (AckError ''Text or file required''), [])
      else
        (case validateUserExists (users st) (Oid (data_userId sock)) of
           None \<Rightarrow> (st, Some (AckError ''Sender not found - please re-authenticate''), [])
         | Some sender \<Rightarrow>
             (case find_peer (users st) req of
                None \<Rightarrow> (st, Some (AckError ''Peer not found or not registered''), [])
              | Some peer \<Rightarrow>
                  if u_id sender = u_id peer
                  then (st, Some (AckError ''Cannot send message to yourself''), [])
                  else
                    (case save_message now st (u_id sender) (u_id peer) req of
                       (st', Inl e) \<Rightarrow> (st', Some (AckError ''Server error''), [])
                     | (st', Inr (msg, cid)) \<Rightarrow>
                         (st', Some (AckOk msg),
                          [(Socket (sock_id sock), MessageNew msg),
                           (Room (u_id peer), MessageNew msg),
                           (Socket (sock_id sock), ThreadUpdate cid (u_id peer)),
                           (Room (u_id peer), ThreadUpdate cid (u_id sender))])))))"

section \<open>Reading messages and conversations\<close>

text \<open>
  The query string of \<open>GET /api/messages\<close>. \<open>Number(limit)\<close> is a number or NaN
  (whole numbers only here), and \<open>new Date(before)\<close> is a date or an invalid date.
\<close>

datatype number = NaN | Num int

datatype cursor = Invalid_Date | Date date

record messages_req =
  q_peerId :: "idarg option"
  q_peerEmail :: "string option"
  q_conversationId :: "idarg option"
  q_limit :: "number option"
  q_before :: "cursor option"

record messages_resp =
  g_peer :: user
  g_messages :: "message list"
  g_conversationId :: oid

text \<open>\<open>Math.min(Number(limit) || 30, 100)\<close>, with \<open>limit = 30\<close> when the field is absent.\<close>

definition query_limit :: "number option \<Rightarrow> int" where
  "query_limit l =
     min (case l of None \<Rightarrow> 30 | Some NaN \<Rightarrow> 30 | Some (Num n) \<Rightarrow> if n = 0 then 30 else n) 100"

text \<open>
  MongoDB's \<open>limit\<close>: zero is no limit, and a negative number limits to its absolute
  value.
\<close>

definition limit_docs :: "int \<Rightarrow> 'a list \<Rightarrow> 'a list" where
  "limit_docs n xs = (if n = 0 then xs else take (nat \<bar>n\<bar>) xs)"

text \<open>\<open>Message.find(q).sort({ createdAt: -1 }).limit(n)\<close>\<close>

definition Message_find :: "message list \<Rightarrow> oid \<Rightarrow> date option \<Rightarrow> int \<Rightarrow> message list" where
  "Message_find ms cid before n =
     limit_docs n
       (sort_key (\<lambda>m. - createdAt m)
          (filter (\<lambda>m. conversationId m = cid \<and>
                        (case before of None \<Rightarrow> True | Some t \<Rightarrow> createdAt m < t)) ms))"

text \<open>
  The end of the handler, from ``Get messages for the conversation'' on, which both
  ways of naming the conversation reach. An invalid date fails the cast of the query.
\<close>

definition list_messages ::
  "state \<Rightarrow> oid \<Rightarrow> conversation \<Rightarrow> user \<Rightarrow> messages_req \<Rightarrow> state \<times> (http_error + messages_resp)" where
  "list_messages st meId conversation peer req =
     (case q_before req of
        Some Invalid_Date \<Rightarrow> (st, Inl (HttpError 500 ''Server error''))
      | b \<Rightarrow>
          let list = Message_find (messages st) (c_id conversation)
                       (case b of Some (Date t) \<Rightarrow> Some t | _ \<Rightarrow> None)
                       (query_limit (q_limit req));
              msgs = rev list;
              st' = resetUnreadCount st (c_id conversation) meId
          in (st', Inr \<lparr>g_peer = peer, g_messages = msgs, g_conversationId = c_id conversation\<rparr>))"

text \<open>The peer that the query names: by \<open>peerId\<close> when it is given, else by email.\<close>

definition query_peer :: "user list \<Rightarrow> messages_req \<Rightarrow> error + user option" where
  "query_peer us req =
     (case q_peerId req of
        Some i \<Rightarrow> User_findById us i
      | None \<Rightarrow> Inr (User_findOne_email us (toLowerCase (or_else (q_peerEmail req) []))))"

text \<open>\<open>GET /api/messages\<close>\<close>

definition get_api_messages ::
  "date \<Rightarrow> state \<Rightarrow> oid \<Rightarrow> messages_req \<Rightarrow> state \<times> (http_error + messages_resp)" where
  "get_api_messages now st sub req =
     (case authWithUserValidation (users st) sub of
        Inl e \<Rightarrow> (st, Inl e)
      | Inr me \<Rightarrow>
          (case q_conversationId req of
             Some Malformed \<Rightarrow> (st, Inl (HttpError 500 ''Server error''))
           | Some (Oid cid) \<Rightarrow>
               (case Conversation_findById (conversations st) cid of
                  None \<Rightarrow> (st, Inl (HttpError 404 ''Conversation not found''))
                | Some conversation \<Rightarrow>
                    if sub \<notin> set (participants conversation)
                    then (st, Inl (HttpError 404 ''Conversation not found''))
                    else
                      (case find (\<lambda>p. p \<noteq> sub) (participants conversation) of
                         None \<Rightarrow> (st, Inl (HttpError 404 ''Conversation participant not found''))
                       | Some otherParticipantId \<Rightarrow>
                           (case find (\<lambda>u. u_id u = otherParticipantId) (users st) of
                              None \<Rightarrow>
                                (st, Inl (HttpError 404 ''Conversation participant not found''))
                            | Some peer \<Rightarrow> list_messages st sub conversation peer req)))
           | None \<Rightarrow>
               if q_peerId req \<noteq> None \<or> truthy (q_peerEmail req) then
                 (case query_peer (users st) req of
                    Inl e \<Rightarrow> (st, Inl (HttpError 500 ''Server error''))
                  | Inr None \<Rightarrow> (st, Inl (HttpError 404 ''Peer not found''))
                  | Inr (Some peer) \<Rightarrow>
                      (case getOrCreateConversation now st [sub, u_id peer] of
                         (st1, Inl e) \<Rightarrow> (st1, Inl (HttpError 500 ''Server error''))
                       | (st1, Inr conversation) \<Rightarrow> list_messages st1 sub conversation peer req))
               else (st, Inl (HttpError 400 ''peerId, peerEmail, or conversationId required''))))"

text \<open>\<open>POST /api/conversations\<close>\<close>

definition post_api_conversations ::
  "date \<Rightarrow> state \<Rightarrow> oid \<Rightarrow> idarg option \<Rightarrow> state \<times> (http_error + oid)" where
  "post_api_conversations now st sub peerId =
     (case authWithUserValidation (users st) sub of
        Inl e \<Rightarrow> (st, Inl e)
      | Inr me \<Rightarrow>
          (case peerId of
             None \<Rightarrow> (st, Inl (HttpError 400 ''peerId is required''))
           | Some i \<Rightarrow>
               (case validateUserExists (users st) (Oid sub) of
                  None \<Rightarrow> (st, Inl (HttpError 401 ''Current user not found''))
                | Some currentUser \<Rightarrow>
                    (case validateUserExists (users st) i of
                       None \<Rightarrow> (st, Inl (HttpError 404 ''Peer user not found or not registered''))
                     | Some peer \<Rightarrow>
                         if u_id currentUser = u_id peer
                         then (st, Inl (HttpError 400 ''Cannot create conversation with yourself''))
                         else
                           (case getOrCreateConversation now st [u_id currentUser, u_id peer] of
                              (st1, Inl e) \<Rightarrow> (st1, Inl (HttpError 500 ''Server error''))
                            | (st1, Inr conversation) \<Rightarrow> (st1, Inr (c_id conversation)))))))"

text \<open>
  \<open>GET /api/conversations/:conversationId\<close>, behind the middleware \<open>auth\<close>, which only
  verifies the token. \<open>populate\<close> replaces the participants by their user documents and
  leaves out the ids that have none.
\<close>

record conversation_resp =
  d_conversation :: conversation
  d_unreadCount :: int
  d_peer :: "user option"

definition populate :: "user list \<Rightarrow> oid list \<Rightarrow> user list" where
  "populate us ps = List.map_filter (\<lambda>p. find (\<lambda>u. u_id u = p) us) ps"

definition get_api_conversation ::
  "state \<Rightarrow> oid \<Rightarrow> idarg \<Rightarrow> http_error + conversation_resp" where
  "get_api_conversation st sub conversationId' =
     (case conversationId' of
        Malformed \<Rightarrow> Inl (HttpError 500 ''Server error'')
      | Oid cid \<Rightarrow>
          (case Conversation_findById (conversations st) cid of
             None \<Rightarrow> Inl (HttpError 404 ''Conversation not found'')
           | Some conversation \<Rightarrow>
               let populated = populate (users st) (participants conversation) in
               if \<not> list_ex (\<lambda>p. u_id p = sub) populated
               then Inl (HttpError 403 ''Access denied'')
               else Inr \<lparr>d_conversation = conversation,
                         d_unreadCount = unread_of conversation sub,
                         d_peer = find (\<lambda>p. u_id p \<noteq> sub) populated\<rparr>))"

section \<open>The socket: presence and read receipts\<close>

text \<open>\<open>io.on('connection')\<close>: the table \<open>connectedUsers\<close> is keyed by the user id.\<close>

definition on_connection :: "date \<Rightarrow> state \<Rightarrow> socket \<Rightarrow> state" where
  "on_connection now st sock =
     st\<lparr>connectedUsers := (connectedUsers st)
          (data_userId sock \<mapsto>
             \<lparr>socketId = sock_id sock, p_email = data_userEmail sock,
               p_name = data_userName sock, connectedAt = now\<rparr>)\<rparr>"

text \<open>\<open>socket.on('disconnect')\<close>: \<open>connectedUsers.delete(userId)\<close>\<close>

definition on_disconnect :: "state \<Rightarrow> socket \<Rightarrow> state" where
  "on_disconnect st sock = st\<lparr>connectedUsers := (connectedUsers st)(data_userId sock := None)\<rparr>"

text \<open>
  \<open>socket.on('message:read')\<close>. The handler takes no acknowledgement callback, and its
  \<open>catch\<close> only logs. \<open>message.save()\<close> writes the two changed fields to the document
  with the message's \<open>_id\<close>.
\<close>

definition socket_message_read ::
  "date \<Rightarrow> state \<Rightarrow> socket \<Rightarrow> idarg option \<Rightarrow> state \<times> ack option \<times> emitted" where
  "socket_message_read now st sock messageId =
     (case messageId of
        None \<Rightarrow> (st, None, [])
      | Some Malformed \<Rightarrow> (st, None, [])
      | Some (Oid mid) \<Rightarrow>
          (case find (\<lambda>m. m_id m = mid) (messages st) of
             None \<Rightarrow> (st, None, [])
           | Some msg \<Rightarrow>
               if m_to msg = data_userId sock
               then (st\<lparr>messages :=
                          update_first (\<lambda>m. m_id m = mid)
                            (\<lambda>m. m\<lparr>status := Read, seenAt := Some now\<rparr>) (messages st)\<rparr>,
                     None,
                     [(Room (m_from msg), MessageReadBy mid (data_userId sock))])
               else (st, None, [])))"

section \<open>Runs of the server\<close>

text \<open>The requests that change the conversations, the messages or the presence table.\<close>

datatype op =
    PostMessage oid send_req
  | SocketSend socket send_req
  | GetMessages oid messages_req
  | PostConversation oid "idarg option"
  | SocketRead socket "idarg option"
  | Connect socket
  | Disconnect socket

fun step :: "state \<Rightarrow> date \<times> op \<Rightarrow> state" where
  "step st (now, PostMessage sub req) = fst (post_api_messages now st sub req)"
| "step st (now, SocketSend sock req) = fst (socket_message_send now st sock req)"
| "step st (now, GetMessages sub req) = fst (get_api_messages now st sub req)"
| "step st (now, PostConversation sub peerId) = fst (post_api_conversations now st sub peerId)"
| "step st (now, SocketRead sock messageId) = fst (socket_message_read now st sock messageId)"
| "step st (now, Connect sock) = on_connection now st sock"
| "step st (now, Disconnect sock) = on_disconnect st sock"

definition run :: "state \<Rightarrow> (date \<times> op) list \<Rightarrow> state" where
  "run st ops = foldl step st ops"

text \<open>The order of the statuses.\<close>

fun rank :: "status \<Rightarrow> nat" where
  "rank Sent = 0"
| "rank Delivered = 1"
| "rank Read = 2"

section \<open>getOrCreateConversation, one database call at a time\<close>

text \<open>
  Each \<open>await\<close> of \<open>getOrCreateConversation\<close> is a point where another request may
  run. A call in progress is at its first lookup, at its insert, at its second lookup
  after a duplicate-key error, or finished.
\<close>

datatype goc = Lookup "oid list" | Insert "oid list" | Requery "oid list"
  | Returned conversation | Threw error

fun goc_step :: "date \<Rightarrow> state \<Rightarrow> goc \<Rightarrow> state \<times> goc" where
  "goc_step now st (Lookup participantIds) =
     (let sortedParticipants = sort participantIds in
      case findOne_participants (conversations st) sortedParticipants of
        Some conversation \<Rightarrow> (st, Returned conversation)
      | None \<Rightarrow> (st, Insert sortedParticipants))"
| "goc_step now st (Insert sortedParticipants) =
     (case Conversation_create st sortedParticipants
             \<lparr>lm_text = '''', lm_from = None, lm_timestamp = now\<rparr> Map.empty of
        Inr (st', conversation) \<Rightarrow> (st', Returned conversation)
      | Inl err \<Rightarrow>
          if err = MongoError 11000 then (st, Requery sortedParticipants) else (st, Threw err))"
| "goc_step now st (Requery sortedParticipants) =
     (case findOne_participants (conversations st) sortedParticipants of
        None \<Rightarrow> (st, Threw (Error ''Failed to create or find conversation''))
      | Some conversation \<Rightarrow> (st, Returned conversation))"
| "goc_step now st (Returned conversation) = (st, Returned conversation)"
| "goc_step now st (Threw err) = (st, Threw err)"

text \<open>A schedule names, step by step, the call that runs next.\<close>

fun run_schedule :: "date \<Rightarrow> nat list \<Rightarrow> state \<times> goc list \<Rightarrow> state \<times> goc list" where
  "run_schedule now [] (st, calls) = (st, calls)"
| "run_schedule now (i # sched) (st, calls) =
     (if i < length calls
      then (case goc_step now st (calls ! i) of
              (st', call') \<Rightarrow> run_schedule now sched (st', calls[i := call']))
      else run_schedule now sched (st, calls))"

definition result_of :: "state \<times> (error + conversation) \<Rightarrow> state \<times> goc" where
  "result_of r = (case r of (st, Inr c) \<Rightarrow> (st, Returned c) | (st, Inl e) \<Rightarrow> (st, Threw e))"

section \<open>Example states, and the predicates of the statements\<close>

definition alice :: user where
  "alice = \<lparr>u_id = 1, u_name = ''Alice'', u_email = ''alice@example.com''\<rparr>"

definition bob :: user where
  "bob = \<lparr>u_id = 2, u_name = ''Bob'', u_email = ''bob@example.com''\<rparr>"

definition carol :: user where
  "carol = \<lparr>u_id = 3, u_name = ''Carol'', u_email = ''carol@example.com''\<rparr>"

text \<open>Two registered users and nothing else.\<close>

definition two_users :: state where
  "two_users = \<lparr>users = [alice, bob], conversations = [], messages = [],
                 connectedUsers = Map.empty\<rparr>"

text \<open>
  Two calls of \<open>getOrCreateConversation\<close> for Alice and Bob, as the two directions of a
  first contact make them, each doing its lookup before the other does its insert.
\<close>

definition two_calls :: "state \<times> goc list" where
  "two_calls = run_schedule 0 [0, 1, 0, 1] (two_users, [Lookup [1, 2], Lookup [2, 1]])"

text \<open>
  What one successful send from \<open>A\<close> leaves behind: the message \<open>msg\<close>, with status
  sent, is the one new entry of the message log; the receiver's counter in the conversation
  \<open>cid\<close> is one more than before and the sender's is what it was, which on a first
  contact is 0.
\<close>

definition sent_one :: "state \<Rightarrow> state \<Rightarrow> oid \<Rightarrow> message \<Rightarrow> oid \<Rightarrow> bool" where
  "sent_one st st' A msg cid \<longleftrightarrow>
     messages st' = messages st @ [msg] \<and> status msg = Sent
     \<and> m_from msg = A \<and> m_to msg \<noteq> A \<and> conversationId msg = cid
     \<and> unread_count st' cid (m_to msg) = unread_count st cid (m_to msg) + 1
     \<and> unread_count st' cid A = unread_count st cid A
     \<and> (findOne_participants (conversations st) (sort [A, m_to msg]) = None
          \<longrightarrow> unread_count st' cid A = 0)"

text \<open>Alice sends ``hello'' to Bob, at time 1000, and the state after it.\<close>

definition hello_req :: send_req where
  "hello_req = \<lparr>toId = Some (Oid 2), toEmail = None, r_text = Some ''hello'',
                 r_messageType = None, r_fileAttachment = None\<rparr>"

definition hello_msg :: message where
  "hello_msg = \<lparr>m_id = 4, conversationId = 3, m_from = 1, m_to = 2, m_text = ''hello'',
                 status = Sent, seenAt = None, messageType = ''text'', fileAttachment = None,
                 createdAt = 1000\<rparr>"

definition hello_state :: state where
  "hello_state =
     \<lparr>users = [alice, bob],
      conversations =
        [\<lparr>c_id = 3, participants = [1, 2],
          lastMessage = \<lparr>lm_text = ''hello'', lm_from = Some 1, lm_timestamp = 1000\<rparr>,
          unreadCount = [2 \<mapsto> 1]\<rparr>],
      messages = [hello_msg],
      connectedUsers = Map.empty\<rparr>"

definition alice_socket :: socket where
  "alice_socket = \<lparr>sock_id = 71, data_userId = 1, data_userEmail = ''alice@example.com'',
                    data_userName = ''Alice''\<rparr>"

text \<open>Alice names herself as the receiver.\<close>

definition self_req :: send_req where
  "self_req = \<lparr>toId = Some (Oid 1), toEmail = None, r_text = Some ''hello'',
                r_messageType = None, r_fileAttachment = None\<rparr>"

text \<open>Alice asks for her messages with Bob, naming him by his id.\<close>

definition peer_req :: messages_req where
  "peer_req = \<lparr>q_peerId = Some (Oid 2), q_peerEmail = None, q_conversationId = None,
                 q_limit = None, q_before = None\<rparr>"

text \<open>Bob opens the conversation with Alice by its id.\<close>

definition read_req :: messages_req where
  "read_req = \<lparr>q_peerId = None, q_peerEmail = None, q_conversationId = Some (Oid 3),
                 q_limit = None, q_before = None\<rparr>"

text \<open>Bob answers ``hi'' at time 2000, and the state after it.\<close>

definition hi_req :: send_req where
  "hi_req = \<lparr>toId = None, toEmail = Some ''Alice@Example.com'', r_text = Some '' hi '',
              r_messageType = None, r_fileAttachment = None\<rparr>"

definition hi_msg :: message where
  "hi_msg = \<lparr>m_id = 5, conversationId = 3, m_from = 2, m_to = 1, m_text = ''hi'',
              status = Sent, seenAt = None, messageType = ''text'', fileAttachment = None,
              createdAt = 2000\<rparr>"

definition two_messages :: state where
  "two_messages =
     \<lparr>users = [alice, bob],
      conversations =
        [\<lparr>c_id = 3, participants = [1, 2],
          lastMessage = \<lparr>lm_text = ''hi'', lm_from = Some 2, lm_timestamp = 2000\<rparr>,
          unreadCount = [2 \<mapsto> 1, 1 \<mapsto> 1]\<rparr>],
      messages = [hello_msg, hi_msg],
      connectedUsers = Map.empty\<rparr>"

text \<open>Bob asks for the conversation with \<open>limit=0\<close>, and with \<open>limit=1\<close> before time 2000.\<close>

definition limit0_req :: messages_req where
  "limit0_req = \<lparr>q_peerId = None, q_peerEmail = None, q_conversationId = Some (Oid 3),
                   q_limit = Some (Num 0), q_before = Some (Date 5000)\<rparr>"

definition before_req :: messages_req where
  "before_req = \<lparr>q_peerId = None, q_peerEmail = None, q_conversationId = Some (Oid 3),
                   q_limit = Some (Num 1), q_before = Some (Date 2000)\<rparr>"

text \<open>The limit as the specification words it: the requested limit clamped to [1,100].\<close>

definition spec_limit :: "int \<Rightarrow> int" where
  "spec_limit n = max 1 (min 100 n)"

text \<open>Two sockets of Bob, an older and a newer one, and Carol reading over her socket.\<close>

definition bob_socket1 :: socket where
  "bob_socket1 = \<lparr>sock_id = 81, data_userId = 2, data_userEmail = ''bob@example.com'',
                   data_userName = ''Bob''\<rparr>"

definition bob_socket2 :: socket where
  "bob_socket2 = \<lparr>sock_id = 82, data_userId = 2, data_userEmail = ''bob@example.com'',
                   data_userName = ''Bob''\<rparr>"

definition carol_socket :: socket where
  "carol_socket = \<lparr>sock_id = 91, data_userId = 3, data_userEmail = ''carol@example.com'',
                    data_userName = ''Carol''\<rparr>"

text \<open>
  Bob connects, connects again from a second socket, and then the first socket's
  disconnect arrives.
\<close>

definition reconnected :: state where
  "reconnected = on_connection 20 (on_connection 10 two_users bob_socket1) bob_socket2"

text \<open>The state after Alice's hello, with Carol registered as well.\<close>

definition with_carol :: state where
  "with_carol = hello_state\<lparr>users := [alice, bob, carol]\<rparr>"

text \<open>
  No message of the old log is lost or renumbered in the new log, and none has a lower
  status there.
\<close>

definition never_downgraded :: "message list \<Rightarrow> message list \<Rightarrow> bool" where
  "never_downgraded old new \<longleftrightarrow>
     length old \<le> length new
     \<and> list_all2 (\<lambda>m m'. m_id m' = m_id m \<and> rank (status m) \<le> rank (status m'))
          old (take (length old) new)"

text \<open>Carol asks for a conversation id that no conversation has.\<close>

definition missing_req :: messages_req where
  "missing_req = \<lparr>q_peerId = None, q_peerEmail = None, q_conversationId = Some (Oid 9),
                    q_limit = None, q_before = None\<rparr>"

section \<open>Properties of getOrCreateConversation\<close>

lemma participants_not_unique: "\<not> participants_unique"
  by (simp add: participants_unique_def conversation_indexes_def)

lemma Conversation_create_succeeds:
  "Conversation_create st ps lm uc =
     Inr (st\<lparr>conversations := conversations st @
            [\<lparr>c_id = new_oid st, participants = ps,
              lastMessage = lm\<lparr>lm_text := trim (lm_text lm)\<rparr>, unreadCount = uc\<rparr>]\<rparr>,
          \<lparr>c_id = new_oid st, participants = ps,
            lastMessage = lm\<lparr>lm_text := trim (lm_text lm)\<rparr>, unreadCount = uc\<rparr>)"
  by (simp add: Conversation_create_def participants_not_unique Let_def)

text \<open>Run alone, the steps compute what the function computes.\<close>

lemma goc_steps_alone:
  "run_schedule now [0, 0, 0] (st, [Lookup ps]) =
     (case result_of (getOrCreateConversation now st ps) of (st', r) \<Rightarrow> (st', [r]))"
  by (simp add: getOrCreateConversation_def result_of_def Conversation_create_succeeds Let_def
      split: option.splits)

text \<open>
  Claim C1 (the part that fails on the code): calls of \<open>getOrCreateConversation\<close> for one
  pair never leave two conversations for that pair. With no unique index on the
  participants the insert cannot fail, so when two calls for Alice and Bob both look the
  pair up before either inserts, both insert: the store holds two conversations with the
  participants 1 and 2, and the two calls return different conversations.
\<close>

theorem getOrCreateConversation_interleaved_twice:
  "map participants (conversations (fst two_calls)) = [[1, 2], [1, 2]]
   \<and> map c_id (conversations (fst two_calls)) = [3, 4]
   \<and> map (\<lambda>r. case r of Returned c \<Rightarrow> Some (c_id c) | _ \<Rightarrow> None) (snd two_calls) = [Some 3, Some 4]"
  by (simp add: two_calls_def two_users_def alice_def bob_def findOne_participants_def
      Conversation_create_succeeds new_oid_def all_ids_def)

section \<open>Fresh ids and updates by id\<close>

lemma fold_max_ge: "(a::nat) \<le> fold max xs a \<and> (\<forall>x \<in> set xs. x \<le> fold max xs a)"
proof (induction xs arbitrary: a)
  case Nil
  then show ?case by simp
next
  case (Cons y ys)
  have "max y a \<le> fold max ys (max y a)" using Cons.IH by blast
  moreover have "\<forall>x \<in> set ys. x \<le> fold max ys (max y a)" using Cons.IH by blast
  ultimately show ?case by auto
qed

lemma new_oid_above: "x \<in> set (all_ids st) \<Longrightarrow> x < new_oid st"
  using fold_max_ge [of 0 "all_ids st"] by (auto simp: new_oid_def)

lemma new_oid_conversation: "c \<in> set (conversations st) \<Longrightarrow> c_id c \<noteq> new_oid st"
  using new_oid_above [of "c_id c" st] by (auto simp: all_ids_def)

lemma find_new_oid: "find (\<lambda>c. c_id c = new_oid st) (conversations st) = None"
  by (auto simp: find_None_iff dest: new_oid_conversation)

lemma find_update_first:
  "(\<And>x. P x \<Longrightarrow> P (f x)) \<Longrightarrow> find P (update_first P f xs) = map_option f (find P xs)"
  by (induction xs) auto

lemma length_update_first: "length (update_first P f xs) = length xs"
  by (induction xs) auto

lemma map_update_first:
  "(\<And>x. g (f x) = g x) \<Longrightarrow> map g (update_first P f xs) = map g xs"
  by (induction xs) auto

lemma getOrCreateConversation_cases:
  "getOrCreateConversation now st ps =
     (case findOne_participants (conversations st) (sort ps) of
        Some c \<Rightarrow> (st, Inr c)
      | None \<Rightarrow>
          (st\<lparr>conversations := conversations st @
                [\<lparr>c_id = new_oid st, participants = sort ps,
                  lastMessage = \<lparr>lm_text = [], lm_from = None, lm_timestamp = now\<rparr>,
                  unreadCount = Map.empty\<rparr>]\<rparr>,
           Inr \<lparr>c_id = new_oid st, participants = sort ps,
                 lastMessage = \<lparr>lm_text = [], lm_from = None, lm_timestamp = now\<rparr>,
                 unreadCount = Map.empty\<rparr>))"
  by (simp add: getOrCreateConversation_def Conversation_create_succeeds Let_def trim_def
      split: option.splits)

lemma findOne_participants_Some:
  "findOne_participants cs ps = Some c \<Longrightarrow>
     c \<in> set cs \<and> set ps \<subseteq> set (participants c) \<and> length (participants c) = length ps"
  unfolding findOne_participants_def
  by (auto simp: find_Some_iff)

lemma find_id_member:
  "c \<in> set cs \<Longrightarrow> \<exists>d. find (\<lambda>x. c_id x = c_id c) cs = Some d"
  by (cases "find (\<lambda>x. c_id x = c_id c) cs") (auto simp: find_None_iff)

lemma find_append_fresh:
  "find P (xs @ ys) = (case find P xs of None \<Rightarrow> find P ys | Some x \<Rightarrow> Some x)"
  by (induction xs) auto

lemma getOrCreateConversation_keeps:
  assumes "getOrCreateConversation now st ps = (st1, r)"
  shows "messages st1 = messages st" and "users st1 = users st"
    and "connectedUsers st1 = connectedUsers st"
  using assms by (auto simp: getOrCreateConversation_cases split: option.splits)

lemma getOrCreateConversation_Inr:
  "\<exists>c. snd (getOrCreateConversation now st ps) = Inr c"
  by (auto simp: getOrCreateConversation_cases split: option.splits)

lemma getOrCreateConversation_found:
  assumes "getOrCreateConversation now st ps = (st1, Inr c)"
  shows "\<exists>d. Conversation_findById (conversations st1) (c_id c) = Some d
            \<and> (\<forall>u. unread_of d u = unread_count st (c_id c) u)"
proof (cases "findOne_participants (conversations st) (sort ps)")
  case None
  with assms have st1: "conversations st1 = conversations st @ [c]" and c: "c_id c = new_oid st"
    and uc: "unreadCount c = Map.empty"
    by (auto simp: getOrCreateConversation_cases)
  have "Conversation_findById (conversations st1) (c_id c) = Some c"
    by (simp add: Conversation_findById_def st1 find_append_fresh c find_new_oid)
  moreover have "unread_of c u = unread_count st (c_id c) u" for u
    by (simp add: unread_of_def unread_count_def Conversation_findById_def c find_new_oid uc)
  ultimately show ?thesis by blast
next
  case (Some c')
  with assms have st1: "st1 = st" and cc: "c' = c"
    by (auto simp: getOrCreateConversation_cases)
  from Some cc have "c \<in> set (conversations st)"
    using findOne_participants_Some by blast
  then obtain d where d: "find (\<lambda>x. c_id x = c_id c) (conversations st) = Some d"
    using find_id_member by blast
  then show ?thesis
    by (simp add: st1 Conversation_findById_def unread_count_def)
qed

lemma save_message_effect:
  assumes "save_message now st A B req = (st', Inr (msg, cid))"
  shows "messages st' = messages st @ [msg]"
    and "status msg = Sent \<and> m_from msg = A \<and> m_to msg = B \<and> conversationId msg = cid"
    and "users st' = users st \<and> connectedUsers st' = connectedUsers st"
    and "unread_count st' cid B = unread_count st cid B + 1"
    and "u \<noteq> B \<Longrightarrow> unread_count st' cid u = unread_count st cid u"
proof -
  obtain st1 r where g: "getOrCreateConversation now st [A, B] = (st1, r)"
    by (cases "getOrCreateConversation now st [A, B]")
  with assms obtain c where r: "r = Inr c"
    by (cases r) (auto simp: save_message_def)
  note keeps = getOrCreateConversation_keeps [OF g]
  from assms g r have cid: "cid = c_id c"
    by (auto simp: save_message_def Message_create_def Let_def split: if_splits)
  from assms g r have msg: "msg = \<lparr>m_id = new_oid st1, conversationId = cid, m_from = A, m_to = B,
      m_text = m_text msg, status = Sent, seenAt = None, messageType = messageType msg,
      fileAttachment = r_fileAttachment req, createdAt = now\<rparr>"
    by (auto simp: save_message_def Message_create_def Let_def split: if_splits)
  from assms g r have st': "messages st' = messages st1 @ [msg]"
    "users st' = users st1" "connectedUsers st' = connectedUsers st1"
    "conversations st' =
       update_first (\<lambda>x. c_id x = cid)
         (\<lambda>x. x\<lparr>unreadCount := (unreadCount x)
                   (B \<mapsto> (case unreadCount x B of None \<Rightarrow> 1 | Some n \<Rightarrow> n + 1))\<rparr>)
         (update_first (\<lambda>x. c_id x = cid)
            (\<lambda>x. x\<lparr>lastMessage := \<lparr>lm_text = trim (lastMessageText msg), lm_from = Some (m_from msg),
                                     lm_timestamp = createdAt msg\<rparr>\<rparr>)
            (conversations st1))"
    by (auto simp: save_message_def Message_create_def Let_def incrementUnreadCount_def
        updateConversationLastMessage_def split: if_splits)
  show "messages st' = messages st @ [msg]" using st' keeps by simp
  show "status msg = Sent \<and> m_from msg = A \<and> m_to msg = B \<and> conversationId msg = cid"
    by (subst msg, simp)+
  show "users st' = users st \<and> connectedUsers st' = connectedUsers st" using st' keeps by simp
  from getOrCreateConversation_found [OF g [unfolded r]] obtain d where
    d: "find (\<lambda>x. c_id x = cid) (conversations st1) = Some d"
    and du: "\<And>u. unread_of d u = unread_count st cid u"
    by (auto simp: cid Conversation_findById_def)
  have f: "find (\<lambda>x. c_id x = cid) (conversations st') =
      Some (d\<lparr>lastMessage := \<lparr>lm_text = trim (lastMessageText msg), lm_from = Some (m_from msg),
                                     lm_timestamp = createdAt msg\<rparr>,
              unreadCount := (unreadCount d)
                   (B \<mapsto> (case unreadCount d B of None \<Rightarrow> 1 | Some n \<Rightarrow> n + 1))\<rparr>)"
    by (simp add: st' find_update_first d)
  show "unread_count st' cid B = unread_count st cid B + 1"
    using du [of B] by (auto simp: unread_count_def Conversation_findById_def f unread_of_def
        split: option.splits)
  show "unread_count st' cid u = unread_count st cid u" if "u \<noteq> B"
    using du [of u] that by (simp add: unread_count_def Conversation_findById_def f unread_of_def)
qed

section \<open>Properties of a send\<close>

lemma validateUserExists_id: "validateUserExists us (Oid n) = Some u \<Longrightarrow> u_id u = n"
  by (auto simp: validateUserExists_def User_findById_def find_Some_iff split: option.splits)

lemma save_message_first_contact:
  assumes "save_message now st A B req = (st', Inr (msg, cid))"
    and "findOne_participants (conversations st) (sort [A, B]) = None"
  shows "unread_count st cid u = 0"
proof -
  from assms have "cid = new_oid st"
    by (auto simp: save_message_def getOrCreateConversation_cases Message_create_def Let_def
        split: if_splits)
  then show ?thesis
    by (simp add: unread_count_def Conversation_findById_def find_new_oid)
qed

lemma save_message_sent_one:
  assumes "save_message now st A B req = (st', Inr (msg, cid))" and "A \<noteq> B"
  shows "sent_one st st' A msg cid"
  using save_message_effect [OF assms(1)] save_message_first_contact [OF assms(1)] assms(2)
  unfolding sent_one_def by metis

lemma eval_trim_hello: "trim ''hello'' = ''hello''"
  by (simp add: trim_def is_space_def)

lemma post_hello:
  "post_api_messages 1000 two_users 1 hello_req =
     (hello_state, Inr \<lparr>r_message = hello_msg, r_conversationId = 3\<rparr>,
      [(Room 1, MessageNew hello_msg), (Room 2, MessageNew hello_msg),
       (Room 1, ThreadUpdate 3 2), (Room 2, ThreadUpdate 3 1)])"
  by (simp add: post_api_messages_def authWithUserValidation_def User_findById_def
      validateUserExists_def find_peer_def save_message_def getOrCreateConversation_cases
      findOne_participants_def Message_create_def truthy_def or_else_def eval_trim_hello
      updateConversationLastMessage_def incrementUnreadCount_def lastMessageText_def
      new_oid_def all_ids_def two_users_def alice_def bob_def hello_req_def hello_msg_def
      hello_state_def Let_def)

lemma socket_hello:
  "socket_message_send 1000 two_users alice_socket hello_req =
     (hello_state, Some (AckOk hello_msg),
      [(Socket 71, MessageNew hello_msg), (Room 2, MessageNew hello_msg),
       (Socket 71, ThreadUpdate 3 2), (Room 2, ThreadUpdate 3 1)])"
  by (simp add: socket_message_send_def User_findById_def
      validateUserExists_def find_peer_def save_message_def getOrCreateConversation_cases
      findOne_participants_def Message_create_def truthy_def or_else_def eval_trim_hello
      updateConversationLastMessage_def incrementUnreadCount_def lastMessageText_def
      new_oid_def all_ids_def two_users_def alice_def bob_def hello_req_def hello_msg_def
      hello_state_def alice_socket_def Let_def)

text \<open>
  Claim C2: for every successful send from sender A to receiver B, over HTTP or over the
  socket, exactly one message with status sent is appended, B's unread counter for the
  conversation goes up by exactly 1, and A's counter is unchanged (0 on a first contact).
\<close>

theorem send_appends_one_and_counts_receiver:
  "(post_api_messages now st sub req = (st', Inr resp, ev) \<longrightarrow>
      sent_one st st' sub (r_message resp) (r_conversationId resp)
      \<and> map_option u_id (find_peer (users st) req) = Some (m_to (r_message resp)))
   \<and> (socket_message_send now st sock req = (st'', Some (AckOk msg), ev') \<longrightarrow>
      sent_one st st'' (data_userId sock) msg (conversationId msg)
      \<and> map_option u_id (find_peer (users st) req) = Some (m_to msg))"
proof (intro conjI impI)
  assume a: "post_api_messages now st sub req = (st', Inr resp, ev)"
  then obtain sender peer where s: "validateUserExists (users st) (Oid sub) = Some sender"
    and p: "find_peer (users st) req = Some peer" and ne: "u_id sender \<noteq> u_id peer"
    and sv: "save_message now st (u_id sender) (u_id peer) req =
               (st', Inr (r_message resp, r_conversationId resp))"
    by (auto simp: post_api_messages_def split: sum.splits if_splits option.splits prod.splits)
  have sub: "u_id sender = sub" using s by (rule validateUserExists_id)
  from save_message_sent_one [OF sv ne] sub
  show "sent_one st st' sub (r_message resp) (r_conversationId resp)" by simp
  from save_message_effect(2) [OF sv] p
  show "map_option u_id (find_peer (users st) req) = Some (m_to (r_message resp))" by simp
next
  assume a: "socket_message_send now st sock req = (st'', Some (AckOk msg), ev')"
  then obtain sender peer cid where
    s: "validateUserExists (users st) (Oid (data_userId sock)) = Some sender"
    and p: "find_peer (users st) req = Some peer" and ne: "u_id sender \<noteq> u_id peer"
    and sv: "save_message now st (u_id sender) (u_id peer) req = (st'', Inr (msg, cid))"
    by (auto simp: socket_message_send_def split: sum.splits if_splits option.splits prod.splits)
  have sub: "u_id sender = data_userId sock" using s by (rule validateUserExists_id)
  have cid: "conversationId msg = cid" using save_message_effect(2) [OF sv] by simp
  from save_message_sent_one [OF sv ne] sub cid
  show "sent_one st st'' (data_userId sock) msg (conversationId msg)" by simp
  from save_message_effect(2) [OF sv] p
  show "map_option u_id (find_peer (users st) req) = Some (m_to msg)" by simp
qed

theorem send_appends_one_and_counts_receiver_witness:
  "post_api_messages 1000 two_users 1 hello_req =
     (hello_state, Inr \<lparr>r_message = hello_msg, r_conversationId = 3\<rparr>,
      [(Room 1, MessageNew hello_msg), (Room 2, MessageNew hello_msg),
       (Room 1, ThreadUpdate 3 2), (Room 2, ThreadUpdate 3 1)])
   \<and> socket_message_send 1000 two_users alice_socket hello_req =
     (hello_state, Some (AckOk hello_msg),
      [(Socket 71, MessageNew hello_msg), (Room 2, MessageNew hello_msg),
       (Socket 71, ThreadUpdate 3 2), (Room 2, ThreadUpdate 3 1)])
   \<and> sent_one two_users hello_state 1 hello_msg 3
   \<and> unread_count hello_state 3 2 = 1 \<and> unread_count hello_state 3 1 = 0"
proof -
  note t = send_appends_one_and_counts_receiver [of 1000 two_users 1 hello_req hello_state
      "\<lparr>r_message = hello_msg, r_conversationId = 3\<rparr>"
      "[(Room 1, MessageNew hello_msg), (Room 2, MessageNew hello_msg),
       (Room 1, ThreadUpdate 3 2), (Room 2, ThreadUpdate 3 1)]"
      alice_socket hello_state hello_msg
      "[(Socket 71, MessageNew hello_msg), (Room 2, MessageNew hello_msg),
       (Socket 71, ThreadUpdate 3 2), (Room 2, ThreadUpdate 3 1)]"]
  have "sent_one two_users hello_state 1
          (r_message \<lparr>r_message = hello_msg, r_conversationId = 3\<rparr>)
          (r_conversationId \<lparr>r_message = hello_msg, r_conversationId = 3\<rparr>)"
    using t post_hello by blast
  then have "sent_one two_users hello_state 1 hello_msg 3" by simp
  moreover have "unread_count hello_state 3 2 = 1 \<and> unread_count hello_state 3 1 = 0"
    by (simp add: unread_count_def Conversation_findById_def unread_of_def hello_state_def)
  ultimately show ?thesis using post_hello socket_hello by blast
qed

section \<open>Sends that fail validation\<close>

text \<open>
  Claim C9: a send that fails validation (empty body with no attachment, unresolvable
  receiver, or sender equal to receiver) returns an error at once, and the state is
  exactly what it was: no conversation and no message is created, no counter changes.
\<close>

theorem invalid_send_changes_nothing:
  assumes "(\<not> truthy (r_text req) \<and> r_fileAttachment req = None)
           \<or> find_peer (users st) req = None
           \<or> map_option u_id (find_peer (users st) req) = Some (data_userId sock)"
  shows "(\<exists>e. post_api_messages now st (data_userId sock) req = (st, Inl e, []))
         \<and> (\<exists>e. socket_message_send now st sock req = (st, Some (AckError e), []))"
proof (cases "\<not> truthy (r_text req) \<and> r_fileAttachment req = None")
  case True
  then show ?thesis
    by (simp add: post_api_messages_def socket_message_send_def split: sum.splits)
next
  case False
  with assms have p: "find_peer (users st) req = None
      \<or> map_option u_id (find_peer (users st) req) = Some (data_userId sock)"
    by blast
  show ?thesis
  proof (cases "validateUserExists (users st) (Oid (data_userId sock))")
    case None
    with False show ?thesis
      by (simp add: post_api_messages_def socket_message_send_def split: sum.splits)
  next
    case (Some sender)
    then have s: "u_id sender = data_userId sock" by (rule validateUserExists_id)
    show ?thesis
    proof (cases "find_peer (users st) req")
      case None
      with False Some show ?thesis
        by (simp add: post_api_messages_def socket_message_send_def split: sum.splits)
    next
      case (Some peer)
      with p have "u_id peer = data_userId sock" by simp
      with False Some s \<open>validateUserExists (users st) (Oid (data_userId sock)) = Some sender\<close>
      show ?thesis
        by (simp add: post_api_messages_def socket_message_send_def split: sum.splits)
    qed
  qed
qed

lemma post_self:
  "post_api_messages 1000 two_users 1 self_req =
     (two_users, Inl (HttpError 400 ''Cannot send message to yourself''), [])"
  by (simp add: post_api_messages_def authWithUserValidation_def User_findById_def
      validateUserExists_def find_peer_def truthy_def two_users_def alice_def bob_def
      self_req_def)

lemma socket_self:
  "socket_message_send 1000 two_users alice_socket self_req =
     (two_users, Some (AckError ''Cannot send message to yourself''), [])"
  by (simp add: socket_message_send_def User_findById_def
      validateUserExists_def find_peer_def truthy_def two_users_def alice_def bob_def
      self_req_def alice_socket_def)

theorem invalid_send_changes_nothing_witness:
  "map_option u_id (find_peer (users two_users) self_req) = Some (data_userId alice_socket)
   \<and> (\<exists>e. post_api_messages 1000 two_users (data_userId alice_socket) self_req
            = (two_users, Inl e, []))
   \<and> (\<exists>e. socket_message_send 1000 two_users alice_socket self_req
            = (two_users, Some (AckError e), []))
   \<and> post_api_messages 1000 two_users 1 self_req =
     (two_users, Inl (HttpError 400 ''Cannot send message to yourself''), [])"
proof -
  have h: "map_option u_id (find_peer (users two_users) self_req) = Some (data_userId alice_socket)"
    by (simp add: find_peer_def validateUserExists_def User_findById_def two_users_def
        alice_def bob_def self_req_def alice_socket_def)
  from invalid_send_changes_nothing [of self_req two_users alice_socket 1000] h
  have "(\<exists>e. post_api_messages 1000 two_users (data_userId alice_socket) self_req
            = (two_users, Inl e, []))
   \<and> (\<exists>e. socket_message_send 1000 two_users alice_socket self_req
            = (two_users, Some (AckError e), []))" by blast
  with h post_self show ?thesis by blast
qed

section \<open>Reading the messages of a conversation\<close>

lemma find_reset:
  "find (\<lambda>c. c_id c = cid) (conversations (resetUnreadCount st cid u)) =
     map_option (\<lambda>c. c\<lparr>unreadCount := (unreadCount c)(u \<mapsto> 0)\<rparr>)
       (find (\<lambda>c. c_id c = cid) (conversations st))"
  by (simp add: resetUnreadCount_def find_update_first)

lemma unread_count_reset: "unread_count (resetUnreadCount st cid u) cid u = 0"
  by (simp add: unread_count_def Conversation_findById_def find_reset unread_of_def
      split: option.splits)

lemma resetUnreadCount_keeps:
  "messages (resetUnreadCount st cid u) = messages st"
  "users (resetUnreadCount st cid u) = users st"
  "connectedUsers (resetUnreadCount st cid u) = connectedUsers st"
  by (simp_all add: resetUnreadCount_def)

lemma list_messages_Inr:
  assumes "list_messages st meId conversation peer req = (st', Inr resp)"
  shows "st' = resetUnreadCount st (c_id conversation) meId"
    and "g_conversationId resp = c_id conversation" and "g_peer resp = peer"
    and "g_messages resp =
           rev (Message_find (messages st) (c_id conversation)
                  (case q_before req of Some (Date t) \<Rightarrow> Some t | _ \<Rightarrow> None)
                  (query_limit (q_limit req)))"
    and "q_before req \<noteq> Some Invalid_Date"
  using assms
  by (auto simp: list_messages_def Let_def split: option.splits cursor.splits)

text \<open>
  Every successful \<open>GET /api/messages\<close> ends in \<open>list_messages\<close>, on a state with the
  same messages.
\<close>

lemma get_api_messages_Inr:
  assumes "get_api_messages now st sub req = (st', Inr resp)"
  shows "\<exists>st1 conversation peer.
           list_messages st1 sub conversation peer req = (st', Inr resp)
           \<and> messages st1 = messages st \<and> users st1 = users st
           \<and> connectedUsers st1 = connectedUsers st"
proof (cases "q_conversationId req")
  case None
  with assms obtain peer st1 conversation where
    g: "getOrCreateConversation now st [sub, u_id peer] = (st1, Inr conversation)"
    and l: "list_messages st1 sub conversation peer req = (st', Inr resp)"
    by (auto simp: get_api_messages_def split: sum.splits option.splits if_splits prod.splits)
  from getOrCreateConversation_keeps [OF g] l show ?thesis by blast
next
  case (Some i)
  with assms obtain conversation peer where
    "list_messages st sub conversation peer req = (st', Inr resp)"
    by (auto simp: get_api_messages_def split: sum.splits option.splits if_splits idarg.splits)
  then show ?thesis by blast
qed

lemma set_limit_docs: "set (limit_docs n xs) \<subseteq> set xs"
  by (auto simp: limit_docs_def dest: in_set_takeD)

lemma set_Message_find:
  "m \<in> set (Message_find ms cid before n) \<Longrightarrow>
     m \<in> set ms \<and> conversationId m = cid \<and> (\<forall>t. before = Some t \<longrightarrow> createdAt m < t)"
  using set_limit_docs [of n "sort_key (\<lambda>m. - createdAt m)
          (filter (\<lambda>m. conversationId m = cid \<and>
                        (case before of None \<Rightarrow> True | Some t \<Rightarrow> createdAt m < t)) ms)"]
  by (auto simp: Message_find_def)

text \<open>
  Claim C3: \<open>getMessages\<close> sets the requesting user's unread counter for the conversation
  to 0, and changes no message: the log is what it was, so every returned message is a
  stored one with the status it had.
\<close>

theorem get_messages_resets_unread_only:
  assumes "get_api_messages now st sub req = (st', Inr resp)"
  shows "unread_count st' (g_conversationId resp) sub = 0
         \<and> messages st' = messages st
         \<and> set (g_messages resp) \<subseteq> set (messages st')"
proof -
  from get_api_messages_Inr [OF assms] obtain st1 conversation peer where
    l: "list_messages st1 sub conversation peer req = (st', Inr resp)"
    and m: "messages st1 = messages st"
    by blast
  note r = list_messages_Inr [OF l]
  have "unread_count st' (g_conversationId resp) sub = 0"
    by (simp add: r(1) r(2) unread_count_reset)
  moreover have ms: "messages st' = messages st"
    by (simp add: r(1) resetUnreadCount_keeps m)
  moreover have "set (g_messages resp) \<subseteq> set (messages st')"
    using set_Message_find by (auto simp: r(4) ms m)
  ultimately show ?thesis by blast
qed

lemma bob_reads:
  "get_api_messages 2000 hello_state 2 read_req =
     (hello_state\<lparr>conversations :=
        [\<lparr>c_id = 3, participants = [1, 2],
          lastMessage = \<lparr>lm_text = ''hello'', lm_from = Some 1, lm_timestamp = 1000\<rparr>,
          unreadCount = [2 \<mapsto> 0]\<rparr>]\<rparr>,
      Inr \<lparr>g_peer = alice, g_messages = [hello_msg], g_conversationId = 3\<rparr>)"
  by (simp add: get_api_messages_def authWithUserValidation_def User_findById_def
      Conversation_findById_def list_messages_def Message_find_def query_limit_def
      limit_docs_def resetUnreadCount_def hello_state_def hello_msg_def read_req_def
      alice_def bob_def Let_def)

theorem get_messages_resets_unread_only_witness:
  "get_api_messages 2000 hello_state 2 read_req =
     (hello_state\<lparr>conversations :=
        [\<lparr>c_id = 3, participants = [1, 2],
          lastMessage = \<lparr>lm_text = ''hello'', lm_from = Some 1, lm_timestamp = 1000\<rparr>,
          unreadCount = [2 \<mapsto> 0]\<rparr>]\<rparr>,
      Inr \<lparr>g_peer = alice, g_messages = [hello_msg], g_conversationId = 3\<rparr>)
   \<and> unread_count hello_state 3 2 = 1
   \<and> unread_count (fst (get_api_messages 2000 hello_state 2 read_req)) 3 2 = 0
   \<and> messages (fst (get_api_messages 2000 hello_state 2 read_req)) = [hello_msg]
   \<and> status hello_msg = Sent"
proof -
  note t = get_messages_resets_unread_only [OF bob_reads]
  have "unread_count hello_state 3 2 = 1"
    by (simp add: unread_count_def Conversation_findById_def unread_of_def hello_state_def)
  moreover have "status hello_msg = Sent" by (simp add: hello_msg_def)
  moreover have "messages hello_state = [hello_msg]" by (simp add: hello_state_def)
  ultimately show ?thesis using t bob_reads by simp
qed

section \<open>Fetching by peer\<close>

lemma update_first_append_fresh:
  "find P xs = None \<Longrightarrow> update_first P f (xs @ ys) = xs @ update_first P f ys"
  by (induction xs) (auto split: if_splits)

text \<open>
  Claim C10: \<open>getMessages\<close> by \<open>peerId\<close> or \<open>peerEmail\<close> is not read-only. When the
  peer exists and the caller has no conversation with the peer, the fetch creates one,
  with an empty last message, although no message is created.
\<close>

theorem get_messages_by_peer_creates_conversation:
  assumes "authWithUserValidation (users st) sub = Inr me"
    and "q_conversationId req = None"
    and "q_peerId req \<noteq> None \<or> truthy (q_peerEmail req)"
    and "query_peer (users st) req = Inr (Some peer)"
    and "findOne_participants (conversations st) (sort [sub, u_id peer]) = None"
  shows "\<exists>c. conversations (fst (get_api_messages now st sub req)) = conversations st @ [c]
           \<and> c_id c = new_oid st \<and> participants c = sort [sub, u_id peer]
           \<and> lm_text (lastMessage c) = [] \<and> lm_from (lastMessage c) = None
           \<and> messages (fst (get_api_messages now st sub req)) = messages st"
proof -
  let ?c = "\<lparr>c_id = new_oid st, participants = sort [sub, u_id peer],
             lastMessage = \<lparr>lm_text = [], lm_from = None, lm_timestamp = now\<rparr>,
             unreadCount = Map.empty\<rparr>"
  let ?st1 = "st\<lparr>conversations := conversations st @ [?c]\<rparr>"
  have g: "getOrCreateConversation now st [sub, u_id peer] = (?st1, Inr ?c)"
    using assms(5) by (simp add: getOrCreateConversation_cases)
  have r: "get_api_messages now st sub req = list_messages ?st1 sub ?c peer req"
    using assms(1-4) g by (simp add: get_api_messages_def)
  show ?thesis
  proof (cases "q_before req = Some Invalid_Date")
    case True
    then have "fst (list_messages ?st1 sub ?c peer req) = ?st1"
      by (simp add: list_messages_def)
    then show ?thesis by (simp add: r)
  next
    case False
    then have "fst (list_messages ?st1 sub ?c peer req) = resetUnreadCount ?st1 (new_oid st) sub"
      by (auto simp: list_messages_def Let_def split: option.splits cursor.splits)
    then show ?thesis
      by (simp add: r resetUnreadCount_def update_first_append_fresh find_new_oid)
  qed
qed

lemma alice_asks:
  "get_api_messages 500 two_users 1 peer_req =
     (two_users\<lparr>conversations :=
        [\<lparr>c_id = 3, participants = [1, 2],
          lastMessage = \<lparr>lm_text = [], lm_from = None, lm_timestamp = 500\<rparr>,
          unreadCount = [1 \<mapsto> 0]\<rparr>]\<rparr>,
      Inr \<lparr>g_peer = bob, g_messages = [], g_conversationId = 3\<rparr>)"
  by (simp add: get_api_messages_def authWithUserValidation_def User_findById_def query_peer_def
      getOrCreateConversation_cases findOne_participants_def new_oid_def all_ids_def
      list_messages_def Message_find_def query_limit_def
      limit_docs_def resetUnreadCount_def two_users_def peer_req_def
      alice_def bob_def Let_def)

theorem get_messages_by_peer_creates_conversation_witness:
  "conversations two_users = [] \<and> messages two_users = []
   \<and> get_api_messages 500 two_users 1 peer_req =
     (two_users\<lparr>conversations :=
        [\<lparr>c_id = 3, participants = [1, 2],
          lastMessage = \<lparr>lm_text = [], lm_from = None, lm_timestamp = 500\<rparr>,
          unreadCount = [1 \<mapsto> 0]\<rparr>]\<rparr>,
      Inr \<lparr>g_peer = bob, g_messages = [], g_conversationId = 3\<rparr>)
   \<and> (\<exists>c. conversations (fst (get_api_messages 500 two_users 1 peer_req)) = [c]
           \<and> lm_text (lastMessage c) = []
           \<and> messages (fst (get_api_messages 500 two_users 1 peer_req)) = [])"
proof -
  have a: "authWithUserValidation (users two_users) 1 = Inr alice"
    by (simp add: authWithUserValidation_def User_findById_def two_users_def alice_def)
  have b: "q_conversationId peer_req = None" by (simp add: peer_req_def)
  have c: "q_peerId peer_req \<noteq> None \<or> truthy (q_peerEmail peer_req)" by (simp add: peer_req_def)
  have d: "query_peer (users two_users) peer_req = Inr (Some bob)"
    by (simp add: query_peer_def User_findById_def two_users_def peer_req_def alice_def bob_def)
  have e: "findOne_participants (conversations two_users) (sort [1, u_id bob]) = None"
    by (simp add: findOne_participants_def two_users_def)
  have n: "conversations two_users = [] \<and> messages two_users = []"
    by (simp add: two_users_def)
  from get_messages_by_peer_creates_conversation [OF a b c d e, of 500] n
  have "\<exists>c. conversations (fst (get_api_messages 500 two_users 1 peer_req)) = [c]
           \<and> lm_text (lastMessage c) = []
           \<and> messages (fst (get_api_messages 500 two_users 1 peer_req)) = []"
    by auto
  with n alice_asks show ?thesis by blast
qed

section \<open>Pagination\<close>

lemma eval_trim_hi: "trim '' hi '' = ''hi''" "trim ''hi'' = ''hi''"
  by (simp_all add: trim_def is_space_def)

lemma eval_lower: "toLowerCase ''Alice@Example.com'' = ''alice@example.com''"
  by code_simp

lemma post_hi:
  "post_api_messages 2000 hello_state 2 hi_req =
     (two_messages, Inr \<lparr>r_message = hi_msg, r_conversationId = 3\<rparr>,
      [(Room 2, MessageNew hi_msg), (Room 1, MessageNew hi_msg),
       (Room 2, ThreadUpdate 3 1), (Room 1, ThreadUpdate 3 2)])"
  by (simp add: post_api_messages_def authWithUserValidation_def User_findById_def
      validateUserExists_def find_peer_def User_findOne_email_def eval_lower
      save_message_def getOrCreateConversation_cases
      findOne_participants_def Message_create_def truthy_def or_else_def eval_trim_hi
      updateConversationLastMessage_def incrementUnreadCount_def lastMessageText_def
      new_oid_def all_ids_def alice_def bob_def hi_req_def hi_msg_def hello_msg_def
      hello_state_def two_messages_def Let_def fun_upd_twist)

lemma two_messages_reachable:
  "run two_users [(1000, PostMessage 1 hello_req), (2000, PostMessage 2 hi_req)] = two_messages"
  by (simp add: run_def post_hello post_hi del: One_nat_def)

lemma length_limit_docs: "n \<noteq> 0 \<Longrightarrow> int (length (limit_docs n xs)) \<le> \<bar>n\<bar>"
  by (simp add: limit_docs_def)

lemma sorted_limit_docs:
  assumes "sorted (map f xs)"
  shows "sorted (map f (limit_docs n xs))"
proof -
  from assms have "sorted (take k (map f xs))" for k by (rule sorted_wrt_take)
  with assms show ?thesis by (simp add: limit_docs_def take_map)
qed

lemma sorted_rev_descending:
  fixes f :: "'a \<Rightarrow> int"
  assumes "sorted (map (\<lambda>x. - f x) xs)"
  shows "sorted (map f (rev xs))"
proof -
  from assms have "sorted_wrt (\<lambda>x y. f y \<le> f x) xs"
    by (simp add: sorted_wrt_map)
  then show ?thesis
    by (simp add: rev_map [symmetric] sorted_wrt_rev sorted_wrt_map)
qed

lemma sorted_rev_Message_find:
  "sorted (map createdAt (rev (Message_find ms cid before n)))"
  unfolding Message_find_def
  by (intro sorted_rev_descending sorted_limit_docs sorted_sort_key)

lemma query_limit_cases:
  "1 \<le> n \<Longrightarrow> query_limit (Some (Num n)) = min n 100"
  "query_limit None = 30" "query_limit (Some NaN) = 30" "query_limit (Some (Num 0)) = 30"
  by (simp_all add: query_limit_def)

text \<open>
  Claim C7, as amended: for every \<open>getMessages\<close> call with a \<open>before\<close> cursor, every
  returned message has \<open>createdAt\<close> strictly less than the cursor, and the returned
  sequence is ordered oldest-first. The number of returned messages is at most
  \<open>min n 100\<close> when the requested limit \<open>n\<close> is a whole number from 1 on, and at most the
  default 30 when the limit is absent, not a number or 0: the code clamps the limit from
  above only.
\<close>

theorem get_messages_page:
  assumes "get_api_messages now st sub req = (st', Inr resp)"
  shows "(\<forall>t. q_before req = Some (Date t) \<longrightarrow> (\<forall>m \<in> set (g_messages resp). createdAt m < t))
         \<and> sorted (map createdAt (g_messages resp))
         \<and> (\<forall>n. q_limit req = Some (Num n) \<and> 1 \<le> n \<longrightarrow>
               int (length (g_messages resp)) \<le> min n 100)
         \<and> (q_limit req = None \<or> q_limit req = Some NaN \<or> q_limit req = Some (Num 0) \<longrightarrow>
               length (g_messages resp) \<le> 30)"
proof -
  from get_api_messages_Inr [OF assms] obtain st1 conversation peer where
    l: "list_messages st1 sub conversation peer req = (st', Inr resp)"
    by blast
  note r = list_messages_Inr(4) [OF l]
  have "\<forall>t. q_before req = Some (Date t) \<longrightarrow> (\<forall>m \<in> set (g_messages resp). createdAt m < t)"
    using set_Message_find by (auto simp: r)
  moreover have "sorted (map createdAt (g_messages resp))"
    unfolding r by (rule sorted_rev_Message_find)
  moreover have "int (length (g_messages resp)) \<le> min n 100"
    if "q_limit req = Some (Num n)" and "1 \<le> n" for n
  proof -
    have "min n 100 \<noteq> 0" and "\<bar>min n 100\<bar> = min n 100" using that(2) by auto
    with length_limit_docs [of "min n 100"] show ?thesis
      using that by (simp add: r Message_find_def query_limit_cases)
  qed
  moreover have "length (g_messages resp) \<le> 30"
    if "q_limit req = None \<or> q_limit req = Some NaN \<or> q_limit req = Some (Num 0)"
    using length_limit_docs [of 30] that
    by (auto simp: r Message_find_def query_limit_cases)
  ultimately show ?thesis by blast
qed

lemma bob_pages:
  "get_api_messages 3000 two_messages 2 before_req =
     (two_messages\<lparr>conversations :=
        [\<lparr>c_id = 3, participants = [1, 2],
          lastMessage = \<lparr>lm_text = ''hi'', lm_from = Some 2, lm_timestamp = 2000\<rparr>,
          unreadCount = [1 \<mapsto> 1, 2 \<mapsto> 0]\<rparr>]\<rparr>,
      Inr \<lparr>g_peer = alice, g_messages = [hello_msg], g_conversationId = 3\<rparr>)"
  by (simp add: get_api_messages_def authWithUserValidation_def User_findById_def
      Conversation_findById_def list_messages_def Message_find_def query_limit_def
      limit_docs_def resetUnreadCount_def two_messages_def hello_msg_def hi_msg_def
      before_req_def alice_def bob_def Let_def)

theorem get_messages_page_witness:
  "get_api_messages 3000 two_messages 2 before_req =
     (two_messages\<lparr>conversations :=
        [\<lparr>c_id = 3, participants = [1, 2],
          lastMessage = \<lparr>lm_text = ''hi'', lm_from = Some 2, lm_timestamp = 2000\<rparr>,
          unreadCount = [1 \<mapsto> 1, 2 \<mapsto> 0]\<rparr>]\<rparr>,
      Inr \<lparr>g_peer = alice, g_messages = [hello_msg], g_conversationId = 3\<rparr>)
   \<and> q_before before_req = Some (Date 2000) \<and> q_limit before_req = Some (Num 1)
   \<and> createdAt hello_msg < 2000 \<and> createdAt hi_msg = 2000
   \<and> sorted (map createdAt [hello_msg])
   \<and> int (length [hello_msg]) \<le> min 1 100"
proof -
  have q: "q_before before_req = Some (Date 2000) \<and> q_limit before_req = Some (Num 1)"
    by (simp add: before_req_def)
  have c: "createdAt hi_msg = 2000" by (simp add: hi_msg_def)
  note t = get_messages_page [OF bob_pages]
  from t q have "createdAt hello_msg < 2000" by simp
  moreover from t have "sorted (map createdAt [hello_msg])" by simp
  moreover from t q have "int (length [hello_msg]) \<le> min 1 100" by simp
  ultimately show ?thesis using bob_pages q c by blast
qed

lemma bob_limit0:
  "snd (get_api_messages 3000 two_messages 2 limit0_req) =
      Inr \<lparr>g_peer = alice, g_messages = [hello_msg, hi_msg], g_conversationId = 3\<rparr>"
  by (simp add: get_api_messages_def authWithUserValidation_def User_findById_def
      Conversation_findById_def list_messages_def Message_find_def query_limit_def
      limit_docs_def resetUnreadCount_def two_messages_def hello_msg_def hi_msg_def
      limit0_req_def alice_def bob_def Let_def)

text \<open>
  Claim C7 as stated fails: asked for \<open>limit=0\<close>, which clamped to [1,100] is 1, the code
  falls back to the default 30 and returns both messages of the conversation.
\<close>

theorem get_messages_limit_counterexample:
  "snd (get_api_messages 3000 two_messages 2 limit0_req) =
      Inr \<lparr>g_peer = alice, g_messages = [hello_msg, hi_msg], g_conversationId = 3\<rparr>
   \<and> q_limit limit0_req = Some (Num 0) \<and> spec_limit 0 = 1
   \<and> \<not> int (length [hello_msg, hi_msg]) \<le> spec_limit 0"
proof -
  have "q_limit limit0_req = Some (Num 0)" by (simp add: limit0_req_def)
  moreover have "spec_limit 0 = 1" by (simp add: spec_limit_def)
  ultimately show ?thesis using bob_limit0 by simp
qed

section \<open>Presence\<close>

text \<open>
  Claim C4 as stated fails: after Bob has registered again with the newer socket 82, the
  disconnect of the older socket 81 removes Bob's entry, which referred to socket 82.
\<close>

theorem stale_disconnect_counterexample:
  "map_option socketId (connectedUsers reconnected 2) = Some 82
   \<and> sock_id bob_socket1 = 81
   \<and> connectedUsers (on_disconnect reconnected bob_socket1) 2 = None"
  by (simp add: reconnected_def on_connection_def on_disconnect_def bob_socket1_def
      bob_socket2_def)

text \<open>
  Claim C4, as amended: the disconnect of a socket removes the registry entry of the
  socket's user, whichever session the entry refers to, and leaves every other user's
  entry in place.
\<close>

theorem disconnect_removes_user_entry:
  "connectedUsers (on_disconnect st sock) (data_userId sock) = None
   \<and> (\<forall>u. u \<noteq> data_userId sock \<longrightarrow>
         connectedUsers (on_disconnect st sock) u = connectedUsers st u)
   \<and> users (on_disconnect st sock) = users st
   \<and> conversations (on_disconnect st sock) = conversations st
   \<and> messages (on_disconnect st sock) = messages st"
  by (simp add: on_disconnect_def)

theorem disconnect_removes_user_entry_witness:
  "connectedUsers (on_disconnect (on_connection 30 reconnected alice_socket) bob_socket1) 2 = None
   \<and> (1 \<noteq> data_userId bob_socket1)
   \<and> map_option socketId
        (connectedUsers (on_disconnect (on_connection 30 reconnected alice_socket) bob_socket1) 1)
       = Some 71"
proof -
  note t = disconnect_removes_user_entry [of "on_connection 30 reconnected alice_socket" bob_socket1]
  have d: "data_userId bob_socket1 = 2" by (simp add: bob_socket1_def)
  have a: "map_option socketId (connectedUsers (on_connection 30 reconnected alice_socket) 1) = Some 71"
    by (simp add: on_connection_def alice_socket_def)
  from t d have "connectedUsers (on_disconnect (on_connection 30 reconnected alice_socket) bob_socket1) 2 = None"
    by simp
  moreover from t d have "connectedUsers (on_disconnect (on_connection 30 reconnected alice_socket) bob_socket1) 1
      = connectedUsers (on_connection 30 reconnected alice_socket) 1"
    by simp
  ultimately show ?thesis using a d by simp
qed

section \<open>Read receipts\<close>

lemma update_first_changes:
  "list_all2 (\<lambda>x y. y = x \<or> (P x \<and> y = f x)) xs (update_first P f xs)"
  by (induction xs) (auto simp: list_all2_same)

lemma socket_message_read_absent:
  "find (\<lambda>m. m_id m = mid) (messages st) = None \<Longrightarrow>
     socket_message_read now st sock (Some (Oid mid)) = (st, None, [])"
  by (simp add: socket_message_read_def)

lemma socket_message_read_other:
  "find (\<lambda>m. m_id m = mid) (messages st) = Some msg \<Longrightarrow> m_to msg \<noteq> data_userId sock \<Longrightarrow>
     socket_message_read now st sock (Some (Oid mid)) = (st, None, [])"
  by (simp add: socket_message_read_def)

lemma socket_message_read_receiver:
  "find (\<lambda>m. m_id m = mid) (messages st) = Some msg \<Longrightarrow> m_to msg = data_userId sock \<Longrightarrow>
     socket_message_read now st sock (Some (Oid mid)) =
       (st\<lparr>messages := update_first (\<lambda>m. m_id m = mid)
                          (\<lambda>m. m\<lparr>status := Read, seenAt := Some now\<rparr>) (messages st)\<rparr>,
        None, [(Room (m_from msg), MessageReadBy mid (data_userId sock))])"
  by (simp add: socket_message_read_def)

text \<open>
  Claim C5 as stated fails: a read receipt for a message id that no message has is not
  answered with NotFound. The handler changes nothing, acknowledges nothing and emits
  nothing.
\<close>

theorem mark_read_absent_counterexample:
  "find (\<lambda>m. m_id m = 99) (messages hello_state) = None
   \<and> socket_message_read 3000 hello_state bob_socket1 (Some (Oid 99)) = (hello_state, None, [])"
  by (simp add: socket_message_read_def hello_state_def hello_msg_def)

text \<open>
  Claim C5, as amended: \<open>markRead\<close> is a silent no-op (no error, nothing changed) both
  when no message has the id and when the reader is not the message's receiver; when the
  reader is the receiver, the message gets the status read and \<open>seenAt\<close> the current time,
  every other message stays as it is, and the sender's room is told.
\<close>

theorem mark_read_cases:
  "(find (\<lambda>m. m_id m = mid) (messages st) = None \<longrightarrow>
      socket_message_read now st sock (Some (Oid mid)) = (st, None, []))
   \<and> (\<forall>msg. find (\<lambda>m. m_id m = mid) (messages st) = Some msg \<and> m_to msg \<noteq> data_userId sock \<longrightarrow>
      socket_message_read now st sock (Some (Oid mid)) = (st, None, []))
   \<and> (\<forall>msg. find (\<lambda>m. m_id m = mid) (messages st) = Some msg \<and> m_to msg = data_userId sock \<longrightarrow>
      (\<exists>st'. socket_message_read now st sock (Some (Oid mid)) =
                (st', None, [(Room (m_from msg), MessageReadBy mid (data_userId sock))])
         \<and> find (\<lambda>m. m_id m = mid) (messages st') = Some (msg\<lparr>status := Read, seenAt := Some now\<rparr>)
         \<and> list_all2 (\<lambda>m m'. m' = m \<or> (m_id m = mid \<and> m' = m\<lparr>status := Read, seenAt := Some now\<rparr>))
              (messages st) (messages st')
         \<and> conversations st' = conversations st \<and> users st' = users st
         \<and> connectedUsers st' = connectedUsers st))"
proof (intro conjI allI impI)
  show "socket_message_read now st sock (Some (Oid mid)) = (st, None, [])"
    if "find (\<lambda>m. m_id m = mid) (messages st) = None"
    using that by (rule socket_message_read_absent)
next
  fix msg
  assume "find (\<lambda>m. m_id m = mid) (messages st) = Some msg \<and> m_to msg \<noteq> data_userId sock"
  then show "socket_message_read now st sock (Some (Oid mid)) = (st, None, [])"
    by (simp add: socket_message_read_other)
next
  fix msg
  assume a: "find (\<lambda>m. m_id m = mid) (messages st) = Some msg \<and> m_to msg = data_userId sock"
  let ?st' = "st\<lparr>messages := update_first (\<lambda>m. m_id m = mid)
                          (\<lambda>m. m\<lparr>status := Read, seenAt := Some now\<rparr>) (messages st)\<rparr>"
  have "socket_message_read now st sock (Some (Oid mid)) =
          (?st', None, [(Room (m_from msg), MessageReadBy mid (data_userId sock))])"
    using a by (simp add: socket_message_read_receiver)
  moreover have "find (\<lambda>m. m_id m = mid) (messages ?st') =
      Some (msg\<lparr>status := Read, seenAt := Some now\<rparr>)"
    using a by (simp add: find_update_first)
  moreover have "list_all2 (\<lambda>m m'. m' = m \<or> (m_id m = mid \<and> m' = m\<lparr>status := Read, seenAt := Some now\<rparr>))
              (messages st) (messages ?st')"
    using update_first_changes [of "\<lambda>m. m_id m = mid"
        "\<lambda>m. m\<lparr>status := Read, seenAt := Some now\<rparr>" "messages st"]
    by simp
  ultimately show "\<exists>st'. socket_message_read now st sock (Some (Oid mid)) =
                (st', None, [(Room (m_from msg), MessageReadBy mid (data_userId sock))])
         \<and> find (\<lambda>m. m_id m = mid) (messages st') = Some (msg\<lparr>status := Read, seenAt := Some now\<rparr>)
         \<and> list_all2 (\<lambda>m m'. m' = m \<or> (m_id m = mid \<and> m' = m\<lparr>status := Read, seenAt := Some now\<rparr>))
              (messages st) (messages st')
         \<and> conversations st' = conversations st \<and> users st' = users st
         \<and> connectedUsers st' = connectedUsers st"
    by (intro exI [of _ ?st']) simp
qed

theorem mark_read_cases_witness:
  "find (\<lambda>m. m_id m = 4) (messages hello_state) = Some hello_msg
   \<and> m_to hello_msg = data_userId bob_socket1 \<and> m_to hello_msg \<noteq> data_userId carol_socket
   \<and> find (\<lambda>m. m_id m = 99) (messages hello_state) = None
   \<and> socket_message_read 3000 hello_state bob_socket1 (Some (Oid 99)) = (hello_state, None, [])
   \<and> socket_message_read 3000 hello_state carol_socket (Some (Oid 4)) = (hello_state, None, [])
   \<and> (\<exists>st'. socket_message_read 3000 hello_state bob_socket1 (Some (Oid 4)) =
                (st', None, [(Room 1, MessageReadBy 4 2)])
         \<and> find (\<lambda>m. m_id m = 4) (messages st') =
             Some (hello_msg\<lparr>status := Read, seenAt := Some 3000\<rparr>))"
proof -
  have f: "find (\<lambda>m. m_id m = 4) (messages hello_state) = Some hello_msg"
    by (simp add: hello_state_def hello_msg_def)
  have n: "find (\<lambda>m. m_id m = 99) (messages hello_state) = None"
    by (simp add: hello_state_def hello_msg_def)
  have b: "m_to hello_msg = data_userId bob_socket1" "m_from hello_msg = 1"
    "data_userId bob_socket1 = 2"
    by (simp_all add: hello_msg_def bob_socket1_def)
  have c: "m_to hello_msg \<noteq> data_userId carol_socket"
    by (simp add: hello_msg_def carol_socket_def)
  from mark_read_cases [of 99 hello_state 3000 bob_socket1] n
  have 1: "socket_message_read 3000 hello_state bob_socket1 (Some (Oid 99)) = (hello_state, None, [])"
    by blast
  from mark_read_cases [of 4 hello_state 3000 carol_socket] f c
  have 2: "socket_message_read 3000 hello_state carol_socket (Some (Oid 4)) = (hello_state, None, [])"
    by blast
  from mark_read_cases [of 4 hello_state 3000 bob_socket1] f b(1)
  have "\<exists>st'. socket_message_read 3000 hello_state bob_socket1 (Some (Oid 4)) =
                (st', None, [(Room (m_from hello_msg), MessageReadBy 4 (data_userId bob_socket1))])
         \<and> find (\<lambda>m. m_id m = 4) (messages st') =
             Some (hello_msg\<lparr>status := Read, seenAt := Some 3000\<rparr>)"
    by blast
  then have 3: "\<exists>st'. socket_message_read 3000 hello_state bob_socket1 (Some (Oid 4)) =
                (st', None, [(Room 1, MessageReadBy 4 2)])
         \<and> find (\<lambda>m. m_id m = 4) (messages st') =
             Some (hello_msg\<lparr>status := Read, seenAt := Some 3000\<rparr>)"
    by (simp only: b)
  from f b(1) c n 1 2 3 show ?thesis by blast
qed

section \<open>Statuses only move forward\<close>

lemma never_downgraded_refl: "never_downgraded ms ms"
  by (simp add: never_downgraded_def list_all2_same)

lemma never_downgraded_append: "never_downgraded ms (ms @ xs)"
  by (simp add: never_downgraded_def list_all2_same)

lemma never_downgraded_trans:
  assumes "never_downgraded a b" and "never_downgraded b c"
  shows "never_downgraded a c"
proof -
  from assms have l: "length a \<le> length b" "length b \<le> length c"
    by (simp_all add: never_downgraded_def)
  have "m_id (c ! i) = m_id (a ! i) \<and> rank (status (a ! i)) \<le> rank (status (c ! i))"
    if "i < length a" for i
  proof -
    from that l have i: "i < length b" by simp
    from assms(1) that have "m_id (b ! i) = m_id (a ! i) \<and> rank (status (a ! i)) \<le> rank (status (b ! i))"
      by (auto simp: never_downgraded_def list_all2_conv_all_nth)
    moreover from assms(2) i have "m_id (c ! i) = m_id (b ! i) \<and> rank (status (b ! i)) \<le> rank (status (c ! i))"
      by (auto simp: never_downgraded_def list_all2_conv_all_nth)
    ultimately show ?thesis by simp
  qed
  with l show ?thesis
    by (simp add: never_downgraded_def list_all2_conv_all_nth)
qed

lemma rank_le_Read: "rank s \<le> rank Read"
  by (cases s) simp_all

lemma never_downgraded_read:
  "never_downgraded ms
     (update_first (\<lambda>m. m_id m = mid) (\<lambda>m. m\<lparr>status := Read, seenAt := Some now\<rparr>) ms)"
proof -
  have "list_all2 (\<lambda>m m'. m_id m' = m_id m \<and> rank (status m) \<le> rank (status m')) ms
     (update_first (\<lambda>m. m_id m = mid) (\<lambda>m. m\<lparr>status := Read, seenAt := Some now\<rparr>) ms)"
    using rank_le_Read
    by (intro list_all2_mono [OF update_first_changes]) auto
  then show ?thesis
    by (simp add: never_downgraded_def length_update_first)
qed

lemma save_message_never_downgraded:
  assumes "save_message now st A B req = (st', r)"
  shows "never_downgraded (messages st) (messages st')"
proof (cases r)
  case (Inl e)
  obtain st1 r1 where g: "getOrCreateConversation now st [A, B] = (st1, r1)"
    by (cases "getOrCreateConversation now st [A, B]")
  with assms Inl have "st' = st1"
    by (auto simp: save_message_def Let_def split: sum.splits prod.splits)
  with getOrCreateConversation_keeps(1) [OF g] show ?thesis
    by (simp add: never_downgraded_refl)
next
  case (Inr p)
  with assms save_message_effect(1) [of now st A B req st' "fst p" "snd p"] show ?thesis
    by (simp add: never_downgraded_append)
qed

lemma post_api_messages_messages:
  "never_downgraded (messages st) (messages (fst (post_api_messages now st sub req)))"
  by (auto simp: post_api_messages_def never_downgraded_refl
      dest: save_message_never_downgraded split: sum.splits option.splits prod.splits)

lemma socket_message_send_messages:
  "never_downgraded (messages st) (messages (fst (socket_message_send now st sock req)))"
  by (auto simp: socket_message_send_def never_downgraded_refl
      dest: save_message_never_downgraded split: sum.splits option.splits prod.splits)

lemma list_messages_messages:
  "messages (fst (list_messages st meId conversation peer req)) = messages st"
  by (auto simp: list_messages_def Let_def resetUnreadCount_keeps
      split: option.splits cursor.splits)

lemma get_api_messages_messages:
  "messages (fst (get_api_messages now st sub req)) = messages st"
  by (auto simp: get_api_messages_def list_messages_messages
      dest: getOrCreateConversation_keeps(1)
      split: sum.splits option.splits prod.splits idarg.splits)

lemma post_api_conversations_messages:
  "messages (fst (post_api_conversations now st sub peerId)) = messages st"
  by (auto simp: post_api_conversations_def
      dest: getOrCreateConversation_keeps(1)
      split: sum.splits option.splits prod.splits)

lemma socket_message_read_messages:
  "never_downgraded (messages st) (messages (fst (socket_message_read now st sock messageId)))"
  by (auto simp: socket_message_read_def never_downgraded_refl never_downgraded_read
      split: option.splits idarg.splits)

lemma step_never_downgraded: "never_downgraded (messages st) (messages (step st x))"
proof (cases x)
  case (Pair now op)
  show ?thesis
  proof (cases op)
    case (PostMessage sub req)
    with Pair show ?thesis by (simp add: post_api_messages_messages)
  next
    case (SocketSend sock req)
    with Pair show ?thesis by (simp add: socket_message_send_messages)
  next
    case (GetMessages sub req)
    with Pair show ?thesis by (simp add: get_api_messages_messages never_downgraded_refl)
  next
    case (PostConversation sub peerId)
    with Pair show ?thesis by (simp add: post_api_conversations_messages never_downgraded_refl)
  next
    case (SocketRead sock messageId)
    with Pair show ?thesis by (simp add: socket_message_read_messages)
  next
    case (Connect sock)
    with Pair show ?thesis by (simp add: on_connection_def never_downgraded_refl)
  next
    case (Disconnect sock)
    with Pair show ?thesis by (simp add: on_disconnect_def never_downgraded_refl)
  qed
qed

lemma run_never_downgraded: "never_downgraded (messages st) (messages (run st ops))"
  unfolding run_def
proof (induction ops arbitrary: st)
  case Nil
  show ?case by (simp add: never_downgraded_refl)
next
  case (Cons x ops)
  from step_never_downgraded [of st x] Cons [of "step st x"]
  show ?case by (auto intro: never_downgraded_trans)
qed

lemma update_first_twice:
  "(\<And>x. P x \<Longrightarrow> P (f x)) \<Longrightarrow> (\<And>x. g (f' (f x)) = g (f x)) \<Longrightarrow>
     map g (update_first P f' (update_first P f xs)) = map g (update_first P f xs)"
  by (induction xs) auto

lemma socket_message_read_twice:
  "map status (messages (fst (socket_message_read t2
       (fst (socket_message_read t1 st sock messageId)) sock messageId)))
     = map status (messages (fst (socket_message_read t1 st sock messageId)))"
proof (cases messageId)
  case None
  then show ?thesis by (simp add: socket_message_read_def)
next
  case (Some i)
  show ?thesis
  proof (cases i)
    case Malformed
    with Some show ?thesis by (simp add: socket_message_read_def)
  next
    case (Oid mid)
    show ?thesis
    proof (cases "find (\<lambda>m. m_id m = mid) (messages st)")
      case None
      with Some Oid show ?thesis by (simp add: socket_message_read_absent)
    next
      case (Some msg)
      show ?thesis
      proof (cases "m_to msg = data_userId sock")
        case False
        with Some \<open>messageId = Some i\<close> Oid show ?thesis by (simp add: socket_message_read_other)
      next
        case True
        let ?f = "\<lambda>t m. m\<lparr>status := Read, seenAt := Some t\<rparr>"
        let ?st1 = "st\<lparr>messages := update_first (\<lambda>m. m_id m = mid) (?f t1) (messages st)\<rparr>"
        have 1: "socket_message_read t1 st sock (Some (Oid mid)) =
            (?st1, None, [(Room (m_from msg), MessageReadBy mid (data_userId sock))])"
          using Some True by (rule socket_message_read_receiver)
        have "find (\<lambda>m. m_id m = mid) (messages ?st1) = Some (?f t1 msg)"
          using Some by (simp add: find_update_first)
        moreover have "m_to (?f t1 msg) = data_userId sock" using True by simp
        ultimately have 2: "socket_message_read t2 ?st1 sock (Some (Oid mid)) =
            (?st1\<lparr>messages := update_first (\<lambda>m. m_id m = mid) (?f t2) (messages ?st1)\<rparr>,
             None, [(Room (m_from (?f t1 msg)), MessageReadBy mid (data_userId sock))])"
          by (rule socket_message_read_receiver)
        show ?thesis
          unfolding \<open>messageId = Some i\<close> Oid 1 fst_conv 2
          by (simp add: update_first_twice)
      qed
    qed
  qed
qed

lemma socket_message_read_no_ack: "fst (snd (socket_message_read now st sock messageId)) = None"
  by (simp add: socket_message_read_def split: option.splits idarg.splits)

text \<open>
  Claim C6: message statuses are monotone in the order sent, delivered, read. Over every
  sequence of requests, every message of the log keeps its place and its id and never gets
  a lower status. In particular a second \<open>markRead\<close> of a message leaves every status as
  the first left it, and reports no error.
\<close>

theorem status_never_moves_backward:
  "never_downgraded (messages st) (messages (run st ops))
   \<and> map status (messages (fst (socket_message_read t2
         (fst (socket_message_read t1 st sock messageId)) sock messageId)))
       = map status (messages (fst (socket_message_read t1 st sock messageId)))
   \<and> fst (snd (socket_message_read t2
         (fst (socket_message_read t1 st sock messageId)) sock messageId)) = None"
  using run_never_downgraded socket_message_read_twice socket_message_read_no_ack
  by blast

lemma bob_reads_twice:
  "run hello_state [(3000, SocketRead bob_socket1 (Some (Oid 4))),
                    (4000, SocketRead bob_socket1 (Some (Oid 4)))]
     = hello_state\<lparr>messages := [hello_msg\<lparr>status := Read, seenAt := Some 4000\<rparr>]\<rparr>"
  by (simp add: run_def socket_message_read_def hello_state_def hello_msg_def bob_socket1_def)

theorem status_never_moves_backward_witness:
  "never_downgraded [hello_msg] [hello_msg\<lparr>status := Read, seenAt := Some 4000\<rparr>]
   \<and> status hello_msg = Sent
   \<and> run hello_state [(3000, SocketRead bob_socket1 (Some (Oid 4))),
                       (4000, SocketRead bob_socket1 (Some (Oid 4)))]
       = hello_state\<lparr>messages := [hello_msg\<lparr>status := Read, seenAt := Some 4000\<rparr>]\<rparr>"
proof -
  note t = status_never_moves_backward [of hello_state
      "[(3000, SocketRead bob_socket1 (Some (Oid 4))),
        (4000, SocketRead bob_socket1 (Some (Oid 4)))]"]
  have m: "messages hello_state = [hello_msg]" by (simp add: hello_state_def)
  from t have "never_downgraded [hello_msg] [hello_msg\<lparr>status := Read, seenAt := Some 4000\<rparr>]"
    unfolding bob_reads_twice m by simp
  moreover have "status hello_msg = Sent" by (simp add: hello_msg_def)
  ultimately show ?thesis using bob_reads_twice by blast
qed

section \<open>Access by a non-participant\<close>

text \<open>
  Claim C8 (the part that fails on the code): a non-participant's access to an existing
  conversation is reported as NotFound, as a missing conversation is. Carol is no
  participant of conversation 3. \<open>GET /api/messages\<close> answers her 404 ``Conversation not
  found'' for conversation 3 and for the missing id 9 alike, but
  \<open>GET /api/conversations/:conversationId\<close> answers 403 ``Access denied'' for
  conversation 3 and 404 for the missing id 9.
\<close>

theorem conversation_fetch_reveals_existence:
  "get_api_conversation with_carol 3 (Oid 3) = Inl (HttpError 403 ''Access denied'')
   \<and> get_api_conversation with_carol 3 (Oid 9) = Inl (HttpError 404 ''Conversation not found'')
   \<and> snd (get_api_messages 3000 with_carol 3 read_req)
        = Inl (HttpError 404 ''Conversation not found'')
   \<and> snd (get_api_messages 3000 with_carol 3 missing_req)
        = Inl (HttpError 404 ''Conversation not found'')"
  by (simp add: get_api_conversation_def get_api_messages_def authWithUserValidation_def
      User_findById_def Conversation_findById_def populate_def List.map_filter_simps
      with_carol_def hello_state_def read_req_def missing_req_def alice_def bob_def carol_def)

theorem conversation_fetch_reveals_existence_witness:
  "get_api_conversation with_carol 3 (Oid 3) \<noteq> get_api_conversation with_carol 3 (Oid 9)
   \<and> snd (get_api_messages 3000 with_carol 3 read_req)
       = snd (get_api_messages 3000 with_carol 3 missing_req)"
  using conversation_fetch_reveals_existence by simp

section \<open>One conversation for each list of participants, request after request\<close>

lemma getOrCreateConversation_distinct:
  assumes "distinct (map participants (conversations st))"
  shows "distinct (map participants (conversations (fst (getOrCreateConversation now st ps))))"
proof (cases "findOne_participants (conversations st) (sort ps)")
  case None
  have "sort ps \<notin> participants ` set (conversations st)"
  proof
    assume "sort ps \<in> participants ` set (conversations st)"
    then obtain c where c: "c \<in> set (conversations st)" "participants c = sort ps" by auto
    from None c(1) have "\<not> (set (sort ps) \<subseteq> set (participants c)
        \<and> length (participants c) = length (sort ps))"
      unfolding findOne_participants_def find_None_iff by blast
    with c(2) show False by simp
  qed
  with None assms show ?thesis
    by (simp add: getOrCreateConversation_cases)
next
  case (Some c)
  with assms show ?thesis by (simp add: getOrCreateConversation_cases)
qed

lemma save_message_participants:
  "map participants (conversations (fst (save_message now st A B req)))
     = map participants (conversations (fst (getOrCreateConversation now st [A, B])))"
  by (auto simp: save_message_def Message_create_def Let_def incrementUnreadCount_def
      updateConversationLastMessage_def map_update_first
      split: sum.splits prod.splits)

lemma list_messages_participants:
  "map participants (conversations (fst (list_messages st meId conversation peer req)))
     = map participants (conversations st)"
  by (auto simp: list_messages_def Let_def resetUnreadCount_def map_update_first
      split: option.splits cursor.splits)

lemma post_api_messages_participants:
  "map participants (conversations (fst (post_api_messages now st sub req)))
     = map participants (conversations st)
   \<or> (\<exists>ps. map participants (conversations (fst (post_api_messages now st sub req)))
         = map participants (conversations (fst (getOrCreateConversation now st ps))))"
  by (simp add: post_api_messages_def case_prod_beta save_message_participants
      split: sum.splits option.splits) blast

lemma socket_message_send_participants:
  "map participants (conversations (fst (socket_message_send now st sock req)))
     = map participants (conversations st)
   \<or> (\<exists>ps. map participants (conversations (fst (socket_message_send now st sock req)))
         = map participants (conversations (fst (getOrCreateConversation now st ps))))"
  by (simp add: socket_message_send_def case_prod_beta save_message_participants
      split: sum.splits option.splits) blast

lemma get_api_messages_participants:
  "map participants (conversations (fst (get_api_messages now st sub req)))
     = map participants (conversations st)
   \<or> (\<exists>ps. map participants (conversations (fst (get_api_messages now st sub req)))
         = map participants (conversations (fst (getOrCreateConversation now st ps))))"
  by (simp add: get_api_messages_def case_prod_beta list_messages_participants
      split: sum.splits option.splits idarg.splits) blast

lemma post_api_conversations_participants:
  "map participants (conversations (fst (post_api_conversations now st sub peerId)))
     = map participants (conversations st)
   \<or> (\<exists>ps. map participants (conversations (fst (post_api_conversations now st sub peerId)))
         = map participants (conversations (fst (getOrCreateConversation now st ps))))"
  by (simp add: post_api_conversations_def case_prod_beta
      split: sum.splits option.splits) blast

lemma step_participants:
  "map participants (conversations (step st x)) = map participants (conversations st)
   \<or> (\<exists>now ps. map participants (conversations (step st x))
         = map participants (conversations (fst (getOrCreateConversation now st ps))))"
proof (cases x)
  case (Pair now op)
  show ?thesis
  proof (cases op)
    case (PostMessage sub req)
    with Pair post_api_messages_participants [of now st sub req] show ?thesis
      by (simp del: ex_simps) blast
  next
    case (SocketSend sock req)
    with Pair socket_message_send_participants [of now st sock req] show ?thesis
      by (simp del: ex_simps) blast
  next
    case (GetMessages sub req)
    with Pair get_api_messages_participants [of now st sub req] show ?thesis
      by (simp del: ex_simps) blast
  next
    case (PostConversation sub peerId)
    with Pair post_api_conversations_participants [of now st sub peerId] show ?thesis
      by (simp del: ex_simps) blast
  next
    case (SocketRead sock messageId)
    with Pair show ?thesis
      by (auto simp: socket_message_read_def split: option.splits idarg.splits)
  next
    case (Connect sock)
    with Pair show ?thesis by (simp add: on_connection_def)
  next
    case (Disconnect sock)
    with Pair show ?thesis by (simp add: on_disconnect_def)
  qed
qed

text \<open>
  When each request runs to its end before the next one starts, no two conversations
  ever have the same list of participants.
\<close>

lemma run_distinct_participants:
  "distinct (map participants (conversations st)) \<Longrightarrow>
     distinct (map participants (conversations (run st ops)))"
  unfolding run_def
proof (induction ops arbitrary: st)
  case Nil
  then show ?case by simp
next
  case (Cons x ops)
  from step_participants [of st x] Cons.prems getOrCreateConversation_distinct [of st]
  have "distinct (map participants (conversations (step st x)))" by auto
  from Cons.IH [OF this] show ?case by simp
qed

end
